theory Spec2Isabelle
  imports Main
begin

section \<open>Strings and dictionaries\<close>

text \<open>
  A Python \<open>str\<close> is modelled as a \<open>string\<close> in which every \<open>char\<close> stands for one code
  point below 256, so \<open>length\<close> is Python's \<open>len\<close> on such strings. A Python \<open>dict\<close>
  is an association list in insertion order; \<open>dict_set\<close> overwrites the value of a key
  in place and appends a new key at the end, as assignment to \<open>d[k]\<close> does.
\<close>

type_synonym 'v dict = "(string \<times> 'v) list"

definition dict_get :: "'v dict \<Rightarrow> string \<Rightarrow> 'v option" where
  "dict_get d k = map_of d k"

fun dict_set :: "'v dict \<Rightarrow> string \<Rightarrow> 'v \<Rightarrow> 'v dict" where
  "dict_set [] k v = [(k, v)]"
| "dict_set ((k', v') # d) k v =
     (if k' = k then (k, v) # d else (k', v') # dict_set d k v)"

definition dict_keys :: "'v dict \<Rightarrow> string list" where
  "dict_keys d = map fst d"

text \<open>\<open>s.startswith(p)\<close> and the substring test \<open>p in s\<close>.\<close>

fun startswith :: "string \<Rightarrow> string \<Rightarrow> bool" where
  "startswith s [] = True"
| "startswith [] (p # ps) = False"
| "startswith (c # cs) (p # ps) = (c = p \<and> startswith cs ps)"

fun contains :: "string \<Rightarrow> string \<Rightarrow> bool" where
  "contains [] p = (p = [])"
| "contains (c # cs) p = (startswith (c # cs) p \<or> contains cs p)"

text \<open>\<open>s.split(c)\<close> for a separator of one character: never an empty list.\<close>

fun split_char :: "char \<Rightarrow> string \<Rightarrow> string list" where
  "split_char sep [] = [[]]"
| "split_char sep (c # cs) =
     (if c = sep then [] # split_char sep cs
      else (case split_char sep cs of
              [] \<Rightarrow> [[c]]
            | w # ws \<Rightarrow> (c # w) # ws))"

text \<open>
  \<open>s.split(sep)\<close> for a separator string: the leftmost occurrences, not overlapping.
  Python raises on the empty separator; the only caller passes \<open>", "\<close>, and here an
  empty separator splits nothing.
\<close>

function split_str :: "string \<Rightarrow> string \<Rightarrow> string list" where
  "split_str sep [] = [[]]"
| "split_str sep (c # cs) =
     (if sep \<noteq> [] \<and> startswith (c # cs) sep
      then [] # split_str sep (drop (length sep - 1) cs)
      else (case split_str sep cs of
              [] \<Rightarrow> [[c]]
            | w # ws \<Rightarrow> (c # w) # ws))"
  by pat_completeness auto
termination
  by (relation "measure (\<lambda>(sep, s). length s)") auto

text \<open>\<open>s.split(c, 1)\<close>: the text before the first \<open>c\<close>, and the text after it if there is one.\<close>

definition split_once :: "char \<Rightarrow> string \<Rightarrow> string \<times> string option" where
  "split_once sep s =
     (takeWhile (\<lambda>c. c \<noteq> sep) s,
      case dropWhile (\<lambda>c. c \<noteq> sep) s of [] \<Rightarrow> None | _ # rest \<Rightarrow> Some rest)"

text \<open>
  \<open>str.lower\<close> on code points below 256: the ASCII capitals and the Latin-1 capitals
  \<open>0xC0\<close> to \<open>0xDE\<close> without the multiplication sign \<open>0xD7\<close> move up by 32.
\<close>

definition lower_char :: "char \<Rightarrow> char" where
  "lower_char c =
     (let n = (of_char c :: nat)
      in if (65 \<le> n \<and> n \<le> 90) \<or> (192 \<le> n \<and> n \<le> 222 \<and> n \<noteq> 215)
         then (case c of Char b0 b1 b2 b3 b4 b5 b6 b7 \<Rightarrow> Char b0 b1 b2 b3 b4 True b6 b7)
         else c)"

definition lower :: "string \<Rightarrow> string" where
  "lower s = map lower_char s"

text \<open>\<open>str(n)\<close> for an integer: decimal digits, a minus sign when negative.\<close>

definition digit_char :: "nat \<Rightarrow> char" where
  "digit_char d = ''0123456789'' ! d"

function str_nat :: "nat \<Rightarrow> string" where
  "str_nat n = (if n < 10 then [digit_char n] else str_nat (n div 10) @ [digit_char (n mod 10)])"
  by pat_completeness auto
termination
  by (relation "measure id") auto

declare str_nat.simps [simp del]

definition str_int :: "int \<Rightarrow> string" where
  "str_int i = (if i < 0 then CHR ''-'' # str_nat (nat (- i)) else str_nat (nat i))"

section \<open>The standard library: \<open>urllib.parse\<close>\<close>

text \<open>
  The code calls \<open>urlparse\<close>, \<open>parse_qs\<close> and \<open>urlencode\<close> of the standard library.
  They are modelled after CPython's \<open>urllib.parse\<close>. Two of its parts are parameters:
  \<open>unquote\<close>, the percent-decoding of a name or value (its result may hold code points
  above 255), and \<open>check_netloc\<close>, the validation of a network location by
  \<open>_check_bracketed_host\<close> and \<open>_checknetloc\<close> that differs between releases and
  raises \<open>ValueError\<close> on the locations it rejects.
\<close>

datatype exn = ValueError | IndexError | KeyError

record urllib =
  unquote :: "string \<Rightarrow> string"
  check_netloc :: "string \<Rightarrow> bool"

text \<open>The components of \<open>urlparse(url)\<close> that the code reads.\<close>

record parse_result =
  scheme :: string
  netloc :: string
  query :: string

definition scheme_chars :: string where
  "scheme_chars = ''abcdefghijklmnopqrstuvwxyzABCDEFGHIJKLMNOPQRSTUVWXYZ0123456789+-.''"

definition is_ascii_alpha :: "char \<Rightarrow> bool" where
  "is_ascii_alpha c = (c \<in> set ''abcdefghijklmnopqrstuvwxyzABCDEFGHIJKLMNOPQRSTUVWXYZ'')"

text \<open>
  \<open>split_scheme\<close>: a scheme is the text before the first colon when that text is not
  empty, starts with an ASCII letter and has scheme characters only.
\<close>

definition split_scheme :: "string \<Rightarrow> string \<times> string" where
  "split_scheme url =
     (let pre = takeWhile (\<lambda>c. c \<noteq> CHR '':'') url
      in if CHR '':'' \<in> set url \<and> pre \<noteq> [] \<and> is_ascii_alpha (hd pre)
            \<and> list_all (\<lambda>c. c \<in> set scheme_chars) pre
         then (lower pre, drop (length pre + 1) url)
         else ([], url))"

definition is_netloc_end :: "char \<Rightarrow> bool" where
  "is_netloc_end c = (c = CHR ''/'' \<or> c = CHR ''?'' \<or> c = CHR ''#'')"

definition urlparse :: "urllib \<Rightarrow> string \<Rightarrow> exn + parse_result" where
  "urlparse L url0 =
     (let url1 = dropWhile (\<lambda>c. (of_char c :: nat) \<le> 32) url0;
          url2 = filter (\<lambda>c. c \<noteq> CHR 0x09 \<and> c \<noteq> CHR 0x0A \<and> c \<noteq> CHR 0x0D) url1;
          (sch, url3) = split_scheme url2;
          has_netloc = startswith url3 ''//'';
          nl = (if has_netloc then takeWhile (\<lambda>c. \<not> is_netloc_end c) (drop 2 url3) else []);
          url4 = (if has_netloc then dropWhile (\<lambda>c. \<not> is_netloc_end c) (drop 2 url3) else url3);
          url5 = takeWhile (\<lambda>c. c \<noteq> CHR ''#'') url4;
          q = (case dropWhile (\<lambda>c. c \<noteq> CHR ''?'') url5 of [] \<Rightarrow> [] | _ # rest \<Rightarrow> rest)
      in if has_netloc \<and> ((CHR ''['' \<in> set nl) \<noteq> (CHR '']'' \<in> set nl)) then Inl ValueError
         else if has_netloc \<and> \<not> check_netloc L nl then Inl ValueError
         else Inr \<lparr>scheme = sch, netloc = nl, query = q\<rparr>)"

text \<open>
  \<open>parse_qsl\<close> with its defaults (\<open>keep_blank_values=False\<close>, \<open>strict_parsing=False\<close>,
  separator \<open>&\<close>): an empty field, a field without \<open>=\<close> and a field whose value is empty
  are dropped.
\<close>

definition plus_to_space :: "string \<Rightarrow> string" where
  "plus_to_space s = map (\<lambda>c. if c = CHR ''+'' then CHR '' '' else c) s"

definition parse_field :: "urllib \<Rightarrow> string \<Rightarrow> (string \<times> string) list" where
  "parse_field L name_value =
     (if name_value = [] then []
      else (case split_once CHR ''='' name_value of
              (n, None) \<Rightarrow> []
            | (n, Some v) \<Rightarrow>
                if v \<noteq> [] then [(unquote L (plus_to_space n), unquote L (plus_to_space v))]
                else []))"

definition parse_qsl :: "urllib \<Rightarrow> string \<Rightarrow> (string \<times> string) list" where
  "parse_qsl L qs = concat (map (parse_field L) (split_char CHR ''&'' qs))"

text \<open>\<open>parse_qs\<close>: the values of a repeated name are collected in the order they come.\<close>

fun parse_qs_add :: "string \<times> string \<Rightarrow> string list dict \<Rightarrow> string list dict" where
  "parse_qs_add (name, value) d =
     (case dict_get d name of
        Some vs \<Rightarrow> dict_set d name (vs @ [value])
      | None \<Rightarrow> dict_set d name [value])"

definition parse_qs :: "urllib \<Rightarrow> string \<Rightarrow> string list dict" where
  "parse_qs L qs = fold parse_qs_add (parse_qsl L qs) []"

text \<open>\<open>quote_plus\<close> and \<open>urlencode\<close> of a dictionary of strings (UTF-8, no extra safe characters).\<close>

fun join :: "string \<Rightarrow> string list \<Rightarrow> string" where
  "join sep [] = []"
| "join sep [x] = x"
| "join sep (x # y # ys) = x @ sep @ join sep (y # ys)"

definition always_safe :: string where
  "always_safe = ''ABCDEFGHIJKLMNOPQRSTUVWXYZabcdefghijklmnopqrstuvwxyz0123456789_.-~''"

definition hex_char :: "nat \<Rightarrow> char" where
  "hex_char n = ''0123456789ABCDEF'' ! n"

definition pct_byte :: "nat \<Rightarrow> string" where
  "pct_byte b = [CHR ''%'', hex_char (b div 16), hex_char (b mod 16)]"

definition quote_plus_char :: "char \<Rightarrow> string" where
  "quote_plus_char c =
     (if c \<in> set always_safe then [c]
      else if c = CHR '' '' then ''+''
      else (let n = (of_char c :: nat)
            in if n < 128 then pct_byte n
               else pct_byte (192 + n div 64) @ pct_byte (128 + n mod 64)))"

definition quote_plus :: "string \<Rightarrow> string" where
  "quote_plus s = concat (map quote_plus_char s)"

definition urlencode :: "string dict \<Rightarrow> string" where
  "urlencode d = join ''&'' (map (\<lambda>(k, v). quote_plus k @ ''='' @ quote_plus v) d)"

section \<open>The HTTP collaborator: \<open>requests\<close>\<close>

text \<open>
  A request is what the code passes to \<open>requests.get\<close> or \<open>requests.options\<close>; both
  follow redirects unless told otherwise. The network answers a request, given the
  requests sent before it, with a response or with a \<open>RequestException\<close> (\<open>None\<close>).
  The list of requests sent so far is threaded through every operation.
\<close>

datatype http_method = GET | OPTIONS

record request =
  req_method :: http_method
  req_url :: string
  req_params :: "string dict"
  req_timeout :: int
  req_allow_redirects :: bool

record response =
  resp_text :: string
  resp_url :: string
  resp_status_code :: int
  resp_headers :: "string dict"

type_synonym network = "request list \<Rightarrow> request \<Rightarrow> response option"

definition send :: "network \<Rightarrow> request \<Rightarrow> request list \<Rightarrow> response option \<times> request list" where
  "send net r w = (net w r, w @ [r])"

definition get_request :: "string \<Rightarrow> string dict \<Rightarrow> int \<Rightarrow> bool \<Rightarrow> request" where
  "get_request u ps t redir =
     \<lparr>req_method = GET, req_url = u, req_params = ps, req_timeout = t,
      req_allow_redirects = redir\<rparr>"

definition options_request :: "string \<Rightarrow> int \<Rightarrow> request" where
  "options_request u t =
     \<lparr>req_method = OPTIONS, req_url = u, req_params = [], req_timeout = t,
      req_allow_redirects = True\<rparr>"

definition requests_get ::
  "network \<Rightarrow> string \<Rightarrow> string dict \<Rightarrow> int \<Rightarrow> bool \<Rightarrow> request list
   \<Rightarrow> response option \<times> request list" where
  "requests_get net u ps t redir w = send net (get_request u ps t redir) w"

definition requests_options ::
  "network \<Rightarrow> string \<Rightarrow> int \<Rightarrow> request list \<Rightarrow> response option \<times> request list" where
  "requests_options net u t w = send net (options_request u t) w"

text \<open>\<open>headers.get(name, default)\<close> of the case-insensitive header dictionary.\<close>

definition headers_get :: "string dict \<Rightarrow> string \<Rightarrow> string \<Rightarrow> string" where
  "headers_get hs name dflt =
     (case map_of (map (\<lambda>(k, v). (lower k, v)) hs) (lower name) of
        None \<Rightarrow> dflt
      | Some v \<Rightarrow> v)"

section \<open>Configuration (\<open>core/config.py\<close>)\<close>

definition XSS_PAYLOADS :: "string list" where
  "XSS_PAYLOADS =
     [''<script>alert(1)</script>'',
      ''<img src=x onerror=alert(1)>'',
      [CHR 0x27] @ '';alert(1);//'',
      ''<svg/onload=alert(1)>'',
      ''javascript:alert(1)'']"

definition SQLI_PAYLOADS :: "string list" where
  "SQLI_PAYLOADS =
     [[CHR 0x27] @ '' OR '' @ [CHR 0x27] @ ''1'' @ [CHR 0x27] @ ''='' @ [CHR 0x27] @ ''1'',
      [CHR 0x22] @ '' OR '' @ [CHR 0x22] @ ''1'' @ [CHR 0x22] @ ''='' @ [CHR 0x22] @ ''1'',
      [CHR 0x27] @ '' UNION SELECT NULL--'',
      ''1; DROP TABLE users--'',
      [CHR 0x27] @ '' AND 1=2 UNION SELECT NULL--'',
      ''admin'' @ [CHR 0x27] @ ''--'']"

definition REDIRECT_PARAMS :: "string list" where
  "REDIRECT_PARAMS = [''redirect'', ''url'', ''next'', ''return'', ''goto'', ''redir'', ''continue'']"

definition MALICIOUS_REDIRECT_TARGET :: string where
  "MALICIOUS_REDIRECT_TARGET = ''https://malicious-example.com''"

definition REQUIRED_SECURITY_HEADERS :: "string list" where
  "REQUIRED_SECURITY_HEADERS =
     [''X-Frame-Options'', ''X-XSS-Protection'', ''Content-Security-Policy'',
      ''Strict-Transport-Security'', ''X-Content-Type-Options'']"

definition FORBIDDEN_HTTP_METHODS :: "string list" where
  "FORBIDDEN_HTTP_METHODS = [''TRACE'', ''TRACK'']"

definition SQL_ERROR_PATTERNS :: "string list" where
  "SQL_ERROR_PATTERNS =
     [''MySQL server version for the right syntax'',
      ''PG::SyntaxError:'',
      ''ORA-01756:'',
      ''Unclosed quotation mark after the character string'',
      ''sqlite3.OperationalError'',
      ''SQL syntax'',
      ''mysql_fetch'',
      ''Warning: pg_'']"

definition RESPONSE_LENGTH_THRESHOLD :: int where
  "RESPONSE_LENGTH_THRESHOLD = 50"

section \<open>The scanner base class (\<open>core/base_scanner.py\<close>)\<close>

text \<open>
  A Finding is the dictionary the scanners build: string keys, string or integer
  values. The values are JSON values, since the report generator serialises them.
\<close>

datatype json = JNull | JBool bool | JInt int | JStr string
  | JList "json list" | JDict "(string \<times> json) list"

type_synonym finding = "json dict"

record scanner =
  timeout :: int
  vulnerabilities :: "finding list"

text \<open>The comprehension \<open>{k: v[0] for k, v in params.items()}\<close>.\<close>

fun first_values :: "string list dict \<Rightarrow> exn + string dict" where
  "first_values [] = Inr []"
| "first_values ((k, v) # rest) =
     (case v of
        [] \<Rightarrow> Inl IndexError
      | x # _ \<Rightarrow> (case first_values rest of Inl e \<Rightarrow> Inl e | Inr d \<Rightarrow> Inr ((k, x) # d)))"

definition extract_params :: "urllib \<Rightarrow> string \<Rightarrow> exn + string dict" where
  "extract_params L target_url =
     (case urlparse L target_url of
        Inl e \<Rightarrow> Inl e
      | Inr parsed_url \<Rightarrow>
          (let params = parse_qs L (query parsed_url)
           in if params \<noteq> [] then first_values params else Inr []))"

definition get_base_url :: "string \<Rightarrow> string" where
  "get_base_url target_url = hd (split_char CHR ''?'' target_url)"

definition reset :: "scanner \<Rightarrow> scanner" where
  "reset s = s\<lparr>vulnerabilities := []\<rparr>"

definition append_vuln :: "finding \<Rightarrow> scanner \<Rightarrow> scanner" where
  "append_vuln v s = s\<lparr>vulnerabilities := vulnerabilities s @ [v]\<rparr>"

text \<open>
  The state of a scan is the scanner object and the requests sent so far. A loop body
  returns the exception it raised, if any, with the state it left; \<open>for_each\<close> runs a
  \<open>for\<close> loop and stops at the first exception. \<open>scan\<close> starts with
  \<open>if not params: params = self.extract_params(target_url)\<close>, where \<open>None\<close> and the
  empty dictionary are both false.
\<close>

type_synonym scan_state = "scanner \<times> request list"

fun for_each :: "('x \<Rightarrow> 's \<Rightarrow> exn option \<times> 's) \<Rightarrow> 'x list \<Rightarrow> 's \<Rightarrow> exn option \<times> 's" where
  "for_each body [] st = (None, st)"
| "for_each body (x # xs) st =
     (case body x st of
        (Some e, st') \<Rightarrow> (Some e, st')
      | (None, st') \<Rightarrow> for_each body xs st')"

fun params_or_extract :: "urllib \<Rightarrow> string \<Rightarrow> string dict option \<Rightarrow> exn + string dict" where
  "params_or_extract L target_url None = extract_params L target_url"
| "params_or_extract L target_url (Some []) = extract_params L target_url"
| "params_or_extract L target_url (Some (p # ps)) = Inr (p # ps)"

definition scan_result :: "exn option \<times> scan_state \<Rightarrow> (exn + finding list) \<times> scan_state" where
  "scan_result r =
     (case r of
        (Some e, st) \<Rightarrow> (Inl e, st)
      | (None, st) \<Rightarrow> (Inr (vulnerabilities (fst st)), st))"

section \<open>The XSS scanner (\<open>scanners/xss_scanner.py\<close>)\<close>

definition xss_finding :: "string \<Rightarrow> string \<Rightarrow> response \<Rightarrow> finding" where
  "xss_finding payload param response =
     [(''type'', JStr ''XSS (Reflected)''),
      (''payload'', JStr payload),
      (''parameter'', JStr param),
      (''url'', JStr (resp_url response)),
      (''status_code'', JInt (resp_status_code response)),
      (''description'', JStr ''Unescaped XSS payload reflected in response'')]"

definition xss_trial ::
  "network \<Rightarrow> string \<Rightarrow> string dict \<Rightarrow> string \<Rightarrow> string \<Rightarrow> scan_state
   \<Rightarrow> exn option \<times> scan_state" where
  "xss_trial net target_url params payload param st =
     (case st of (s, w) \<Rightarrow>
        (let modified_params = dict_set params param payload
         in case requests_get net (get_base_url target_url) modified_params (timeout s) False w of
              (None, w') \<Rightarrow> (None, (s, w'))
            | (Some response, w') \<Rightarrow>
                if contains (resp_text response) payload
                then (None, (append_vuln (xss_finding payload param response) s, w'))
                else (None, (s, w'))))"

definition xss_scan ::
  "urllib \<Rightarrow> network \<Rightarrow> string \<Rightarrow> string dict option \<Rightarrow> scan_state
   \<Rightarrow> (exn + finding list) \<times> scan_state" where
  "xss_scan L net target_url params0 st0 =
     (case st0 of (s0, w) \<Rightarrow>
        (let s = reset s0
         in case params_or_extract L target_url params0 of
              Inl e \<Rightarrow> (Inl e, (s, w))
            | Inr params \<Rightarrow>
                if params = [] then (Inr (vulnerabilities s), (s, w))
                else scan_result
                       (for_each
                          (\<lambda>payload.
                             for_each (xss_trial net target_url params payload) (dict_keys params))
                          XSS_PAYLOADS (s, w))))"

section \<open>The SQL injection scanner (\<open>scanners/sqli_scanner.py\<close>)\<close>

definition sqli_error_finding :: "string \<Rightarrow> string \<Rightarrow> response \<Rightarrow> string \<Rightarrow> finding" where
  "sqli_error_finding payload param response error_pattern =
     [(''type'', JStr ''SQL Injection (Error-Based)''),
      (''payload'', JStr payload),
      (''parameter'', JStr param),
      (''url'', JStr (resp_url response)),
      (''status_code'', JInt (resp_status_code response)),
      (''description'', JStr (''SQL error detected: '' @ error_pattern))]"

definition sqli_boolean_finding :: "string \<Rightarrow> string \<Rightarrow> response \<Rightarrow> int \<Rightarrow> finding" where
  "sqli_boolean_finding payload param response length_diff =
     [(''type'', JStr ''SQL Injection (Boolean-Based)''),
      (''payload'', JStr payload),
      (''parameter'', JStr param),
      (''url'', JStr (resp_url response)),
      (''status_code'', JInt (resp_status_code response)),
      (''description'',
         JStr (''Significant response length change ('' @ str_int length_diff @ '' bytes)''))]"

text \<open>The loop over the error patterns, which breaks at the first pattern found.\<close>

fun check_error_patterns ::
  "string list \<Rightarrow> string \<Rightarrow> string \<Rightarrow> response \<Rightarrow> scanner \<Rightarrow> scanner" where
  "check_error_patterns [] payload param response s = s"
| "check_error_patterns (error_pattern # rest) payload param response s =
     (if contains (resp_text response) error_pattern
      then append_vuln (sqli_error_finding payload param response error_pattern) s
      else check_error_patterns rest payload param response s)"

definition length_diff_of :: "response \<Rightarrow> response \<Rightarrow> int" where
  "length_diff_of response original_response =
     \<bar>int (length (resp_text response)) - int (length (resp_text original_response))\<bar>"

definition sqli_trial ::
  "network \<Rightarrow> string \<Rightarrow> string dict \<Rightarrow> string \<Rightarrow> string \<Rightarrow> scan_state
   \<Rightarrow> exn option \<times> scan_state" where
  "sqli_trial net target_url params payload param st =
     (case st of (s, w) \<Rightarrow>
        (let modified_params = dict_set params param payload
         in case requests_get net (get_base_url target_url) modified_params (timeout s) False w of
              (None, w1) \<Rightarrow> (None, (s, w1))
            | (Some response, w1) \<Rightarrow>
                (let s1 = check_error_patterns SQL_ERROR_PATTERNS payload param response s
                 in case dict_get params param of
                      None \<Rightarrow> (Some KeyError, (s1, w1))
                    | Some original \<Rightarrow>
                        (case requests_get net (get_base_url target_url) [(param, original)]
                                (timeout s1) True w1 of
                           (None, w2) \<Rightarrow> (None, (s1, w2))
                         | (Some original_response, w2) \<Rightarrow>
                             (let length_diff = length_diff_of response original_response
                              in if length_diff > RESPONSE_LENGTH_THRESHOLD
                                 then (None,
                                       (append_vuln
                                          (sqli_boolean_finding payload param response length_diff)
                                          s1,
                                        w2))
                                 else (None, (s1, w2)))))))"

definition sqli_scan ::
  "urllib \<Rightarrow> network \<Rightarrow> string \<Rightarrow> string dict option \<Rightarrow> scan_state
   \<Rightarrow> (exn + finding list) \<times> scan_state" where
  "sqli_scan L net target_url params0 st0 =
     (case st0 of (s0, w) \<Rightarrow>
        (let s = reset s0
         in case params_or_extract L target_url params0 of
              Inl e \<Rightarrow> (Inl e, (s, w))
            | Inr params \<Rightarrow>
                if params = [] then (Inr (vulnerabilities s), (s, w))
                else scan_result
                       (for_each
                          (\<lambda>payload.
                             for_each (sqli_trial net target_url params payload) (dict_keys params))
                          SQLI_PAYLOADS (s, w))))"

section \<open>The HTTP misconfiguration scanner (\<open>scanners/http_scanner.py\<close>)\<close>

definition missing_header_finding :: "string \<Rightarrow> string \<Rightarrow> response \<Rightarrow> finding" where
  "missing_header_finding header target_url response =
     [(''type'', JStr ''HTTP Misconfiguration''),
      (''issue'', JStr ''Missing Security Header''),
      (''details'',
         JStr (''Header '' @ [CHR 0x27] @ header @ [CHR 0x27]
               @ '' is missing (critical for security hardening)'')),
      (''url'', JStr target_url),
      (''status_code'', JInt (resp_status_code response))]"

definition insecure_method_finding :: "string \<Rightarrow> string \<Rightarrow> response \<Rightarrow> finding" where
  "insecure_method_finding method target_url options_response =
     [(''type'', JStr ''HTTP Misconfiguration''),
      (''issue'', JStr ''Insecure HTTP Method Enabled''),
      (''details'',
         JStr (''Method '' @ [CHR 0x27] @ method @ [CHR 0x27]
               @ '' is allowed (can be used for cross-site tracing attacks)'')),
      (''url'', JStr target_url),
      (''status_code'', JInt (resp_status_code options_response))]"

text \<open>The comprehension \<open>{k.lower(): v for k, v in response.headers.items()}\<close>.\<close>

definition lower_headers :: "string dict \<Rightarrow> string dict" where
  "lower_headers hs = fold (\<lambda>(k, v) d. dict_set d (lower k) v) hs []"

definition check_headers :: "string \<Rightarrow> response \<Rightarrow> scanner \<Rightarrow> scanner" where
  "check_headers target_url response s =
     (let response_headers = lower_headers (resp_headers response)
      in fold (\<lambda>header s'.
                 if dict_get response_headers (lower header) = None
                 then append_vuln (missing_header_finding header target_url response) s'
                 else s')
              REQUIRED_SECURITY_HEADERS s)"

definition check_methods :: "string \<Rightarrow> response \<Rightarrow> scanner \<Rightarrow> scanner" where
  "check_methods target_url options_response s =
     (let allowed_methods = split_str '', '' (headers_get (resp_headers options_response) ''Allow'' [])
      in fold (\<lambda>method s'.
                 if method \<in> set allowed_methods
                 then append_vuln (insecure_method_finding method target_url options_response) s'
                 else s')
              FORBIDDEN_HTTP_METHODS s)"

definition http_scan ::
  "network \<Rightarrow> string \<Rightarrow> string dict option \<Rightarrow> scan_state
   \<Rightarrow> (exn + finding list) \<times> scan_state" where
  "http_scan net target_url params0 st0 =
     (case st0 of (s0, w) \<Rightarrow>
        (let s = reset s0
         in case requests_get net target_url [] (timeout s) True w of
              (None, w1) \<Rightarrow> (Inr (vulnerabilities s), (s, w1))
            | (Some response, w1) \<Rightarrow>
                (let s1 = check_headers target_url response s
                 in case requests_options net target_url (timeout s1) w1 of
                      (None, w2) \<Rightarrow> (Inr (vulnerabilities s1), (s1, w2))
                    | (Some options_response, w2) \<Rightarrow>
                        (let s2 = check_methods target_url options_response s1
                         in (Inr (vulnerabilities s2), (s2, w2))))))"

section \<open>The open redirect scanner (\<open>scanners/redirect_scanner.py\<close>)\<close>

definition redirect_finding :: "string \<Rightarrow> string \<Rightarrow> response \<Rightarrow> finding" where
  "redirect_finding param test_url response =
     [(''type'', JStr ''Open Redirect''),
      (''parameter'', JStr param),
      (''url'', JStr test_url),
      (''redirected_to'', JStr (resp_url response)),
      (''status_code'', JInt (resp_status_code response)),
      (''description'',
         JStr ''Unvalidated redirect parameter allows navigation to malicious domain'')]"

definition redirect_test_url :: "string \<Rightarrow> string \<Rightarrow> string" where
  "redirect_test_url target_url param =
     get_base_url target_url @ ''?'' @ urlencode [(param, MALICIOUS_REDIRECT_TARGET)]"

definition redirect_trial ::
  "urllib \<Rightarrow> network \<Rightarrow> string \<Rightarrow> string \<Rightarrow> scan_state \<Rightarrow> exn option \<times> scan_state" where
  "redirect_trial L net target_url param st =
     (case st of (s, w) \<Rightarrow>
        (let test_url = redirect_test_url target_url param
         in case requests_get net test_url [] (timeout s) True w of
              (None, w') \<Rightarrow> (None, (s, w'))
            | (Some response, w') \<Rightarrow>
                (case urlparse L (resp_url response) of
                   Inl e \<Rightarrow> (Some e, (s, w'))
                 | Inr parsed_final_url \<Rightarrow>
                     (case urlparse L MALICIOUS_REDIRECT_TARGET of
                        Inl e \<Rightarrow> (Some e, (s, w'))
                      | Inr parsed_target \<Rightarrow>
                          if netloc parsed_final_url = netloc parsed_target
                          then (None, (append_vuln (redirect_finding param test_url response) s, w'))
                          else (None, (s, w'))))))"

definition redirect_scan ::
  "urllib \<Rightarrow> network \<Rightarrow> string \<Rightarrow> string dict option \<Rightarrow> scan_state
   \<Rightarrow> (exn + finding list) \<times> scan_state" where
  "redirect_scan L net target_url params0 st0 =
     (case st0 of (s0, w) \<Rightarrow>
        (let s = reset s0
         in case urlparse L target_url of
              Inl e \<Rightarrow> (Inl e, (s, w))
            | Inr parsed_base_url \<Rightarrow>
                scan_result (for_each (redirect_trial L net target_url) REDIRECT_PARAMS (s, w))))"

section \<open>The report generator (\<open>core/reporter.py\<close>)\<close>

text \<open>
  \<open>json.dump(report, f, indent=4, ensure_ascii=False)\<close>: with an indent the encoder
  puts every item of a non-empty list or dictionary on a line of its own, separates
  items by a comma and a key from its value by a colon and a space, and escapes in a
  string only the quote, the backslash and the control characters.
\<close>

definition lhex_char :: "nat \<Rightarrow> char" where
  "lhex_char n = ''0123456789abcdef'' ! n"

definition escape_char :: "char \<Rightarrow> string" where
  "escape_char c =
     (if c = CHR 0x5C then [CHR 0x5C, CHR 0x5C]
      else if c = CHR 0x22 then [CHR 0x5C, CHR 0x22]
      else if c = CHR 0x08 then [CHR 0x5C, CHR ''b'']
      else if c = CHR 0x0C then [CHR 0x5C, CHR ''f'']
      else if c = CHR 0x0A then [CHR 0x5C, CHR ''n'']
      else if c = CHR 0x0D then [CHR 0x5C, CHR ''r'']
      else if c = CHR 0x09 then [CHR 0x5C, CHR ''t'']
      else (let n = (of_char c :: nat)
            in if n < 32 then [CHR 0x5C] @ ''u00'' @ [lhex_char (n div 16), lhex_char (n mod 16)]
               else [c]))"

definition encode_basestring :: "string \<Rightarrow> string" where
  "encode_basestring s = [CHR 0x22] @ concat (map escape_char s) @ [CHR 0x22]"

definition newline_indent :: "nat \<Rightarrow> string" where
  "newline_indent level = CHR 0x0A # replicate (4 * level) CHR '' ''"

fun iterencode :: "nat \<Rightarrow> json \<Rightarrow> string"
  and iterencode_list :: "nat \<Rightarrow> json list \<Rightarrow> string list"
  and iterencode_dict :: "nat \<Rightarrow> (string \<times> json) list \<Rightarrow> string list" where
  "iterencode level JNull = ''null''"
| "iterencode level (JBool b) = (if b then ''true'' else ''false'')"
| "iterencode level (JInt i) = str_int i"
| "iterencode level (JStr s) = encode_basestring s"
| "iterencode level (JList lst) =
     (if lst = [] then ''[]''
      else ''['' @ newline_indent (level + 1)
           @ join ('','' @ newline_indent (level + 1)) (iterencode_list (level + 1) lst)
           @ newline_indent level @ '']'')"
| "iterencode level (JDict dct) =
     (if dct = [] then ''{}''
      else ''{'' @ newline_indent (level + 1)
           @ join ('','' @ newline_indent (level + 1)) (iterencode_dict (level + 1) dct)
           @ newline_indent level @ ''}'')"
| "iterencode_list level [] = []"
| "iterencode_list level (v # vs) = iterencode level v # iterencode_list level vs"
| "iterencode_dict level [] = []"
| "iterencode_dict level ((k, v) # kvs) =
     (encode_basestring k @ '': '' @ iterencode level v) # iterencode_dict level kvs"

definition json_dump :: "json \<Rightarrow> string" where
  "json_dump obj = iterencode 0 obj"

text \<open>
  What \<open>generate_report\<close> does: it writes the JSON text to the output path, or hands
  the report to the HTML generator (whose template no property here is about), or
  prints that the format is not supported. \<open>now\<close> is the text that
  \<open>datetime.datetime.now().isoformat()\<close> returns in this run.
\<close>

datatype report_action =
  Write_file string string
  | Html_report json string
  | Print_error string

definition build_report :: "string \<Rightarrow> finding list \<Rightarrow> string \<Rightarrow> json" where
  "build_report now vulns target_url =
     JDict [(''scan_timestamp'', JStr now),
            (''target_url'', JStr target_url),
            (''total_vulnerabilities'', JInt (int (length vulns))),
            (''vulnerabilities'', JList (map JDict vulns))]"

definition generate_json_report :: "json \<Rightarrow> string \<Rightarrow> report_action" where
  "generate_json_report report output_path = Write_file output_path (json_dump report)"

definition generate_report ::
  "string \<Rightarrow> finding list \<Rightarrow> string \<Rightarrow> string \<Rightarrow> string \<Rightarrow> report_action" where
  "generate_report now vulns target_url output_path format =
     (let report = build_report now vulns target_url
      in if lower format = ''json'' then generate_json_report report output_path
         else if lower format = ''html'' then Html_report report output_path
         else Print_error (''Unsupported report format: '' @ format
                           @ '' (supported: json/html)''))"

section \<open>Vocabulary of the properties and example inputs\<close>

text \<open>
  A query field assigns an empty value when it is a name followed by its first and
  only \<open>=\<close>, as \<open>name=\<close> in \<open>?name=&id=\<close>.
\<close>

definition assigns_empty_value :: "string \<Rightarrow> bool" where
  "assigns_empty_value field =
     (field \<noteq> [] \<and> last field = CHR ''='' \<and> CHR ''='' \<notin> set (butlast field))"

text \<open>
  Example inputs: a library that decodes nothing and accepts every network location, a
  fresh scanner with the default timeout, and a network that answers every request
  with the same body.
\<close>

definition example_urllib :: urllib where
  "example_urllib = \<lparr>unquote = (\<lambda>s. s), check_netloc = (\<lambda>nl. True)\<rparr>"

definition example_scanner :: scanner where
  "example_scanner = \<lparr>timeout = 10, vulnerabilities = []\<rparr>"

definition example_response :: "string \<Rightarrow> response" where
  "example_response body =
     \<lparr>resp_text = body, resp_url = ''http://example.com/'', resp_status_code = 200,
      resp_headers = []\<rparr>"

definition always_answers :: "string \<Rightarrow> network" where
  "always_answers body h r = Some (example_response body)"

definition no_network :: network where
  "no_network h r = None"

definition answers_get_only :: "response \<Rightarrow> network" where
  "answers_get_only response h r = (if req_method r = GET then Some response else None)"

text \<open>The kind of a Finding of the SQLi scanner is read from its \<open>type\<close> entry.\<close>

definition is_error_based :: "finding \<Rightarrow> bool" where
  "is_error_based f = (dict_get f ''type'' = Some (JStr ''SQL Injection (Error-Based)''))"



definition redirect_sensitive :: network where
  "redirect_sensitive h r =
     Some (example_response (if req_allow_redirects r then [] else replicate 60 CHR ''x''))"

text \<open>
  The error-based Findings of one payload and one parameter, their number in a scan
  state, and the evidence behind an error-based Finding: the response of the network
  to the payload request of its own payload and parameter, in which the pattern named
  by the description is the first pattern of the list that occurs.
\<close>

definition error_based_for :: "string \<Rightarrow> string \<Rightarrow> finding \<Rightarrow> bool" where
  "error_based_for payload param f =
     (is_error_based f
      \<and> dict_get f ''payload'' = Some (JStr payload)
      \<and> dict_get f ''parameter'' = Some (JStr param))"

definition error_evidence :: "network \<Rightarrow> string \<Rightarrow> int \<Rightarrow> string dict \<Rightarrow> finding \<Rightarrow> bool" where
  "error_evidence net target_url t params f =
     (\<exists>payload param h response pat.
        payload \<in> set SQLI_PAYLOADS
      \<and> param \<in> set (dict_keys params)
      \<and> net h (get_request (get_base_url target_url) (dict_set params param payload) t False)
          = Some response
      \<and> find (contains (resp_text response)) SQL_ERROR_PATTERNS = Some pat
      \<and> f = sqli_error_finding payload param response pat
      \<and> dict_get f ''description'' = Some (JStr (''SQL error detected: '' @ pat)))"

definition count_error_based :: "string \<Rightarrow> string \<Rightarrow> scan_state \<Rightarrow> nat" where
  "count_error_based payload param st =
     length (filter (error_based_for payload param) (vulnerabilities (fst st)))"

text \<open>
  The two shapes of a request of the SQLi scan: the payload request carries the whole
  dictionary with the probed parameter replaced by a payload and does not follow
  redirects; the baseline request carries the probed parameter alone, with its
  original value, and follows redirects.
\<close>

definition is_payload_request :: "string \<Rightarrow> int \<Rightarrow> string dict \<Rightarrow> request \<Rightarrow> bool" where
  "is_payload_request target_url t params r =
     (\<exists>payload \<in> set SQLI_PAYLOADS. \<exists>param \<in> set (dict_keys params).
        r = get_request (get_base_url target_url) (dict_set params param payload) t False)"

definition is_baseline_request :: "string \<Rightarrow> int \<Rightarrow> string dict \<Rightarrow> request \<Rightarrow> bool" where
  "is_baseline_request target_url t params r =
     (\<exists>param original.
        dict_get params param = Some original
      \<and> r = get_request (get_base_url target_url) [(param, original)] t True)"

text \<open>
  The evidence behind a Finding of the open redirect scan: a redirect parameter name
  and a response of the network to the test request for it, whose final URL has the
  network location of the malicious target.
\<close>

definition redirect_evidence :: "urllib \<Rightarrow> network \<Rightarrow> string \<Rightarrow> int \<Rightarrow> finding \<Rightarrow> bool" where
  "redirect_evidence L net target_url t f =
     (\<exists>param h response parsed_final_url parsed_target.
        param \<in> set REDIRECT_PARAMS
      \<and> net h (get_request (redirect_test_url target_url param) [] t True) = Some response
      \<and> urlparse L (resp_url response) = Inr parsed_final_url
      \<and> urlparse L MALICIOUS_REDIRECT_TARGET = Inr parsed_target
      \<and> netloc parsed_final_url = netloc parsed_target
      \<and> netloc parsed_target = ''malicious-example.com''
      \<and> f = redirect_finding param (redirect_test_url target_url param) response)"

definition redirects_to :: "string \<Rightarrow> network" where
  "redirects_to final_url h r = Some ((example_response ''moved'')\<lparr>resp_url := final_url\<rparr>)"

section \<open>Properties\<close>

subsection \<open>Basic facts\<close>

lemma reset_vulnerabilities: "vulnerabilities (reset s) = []"
  by (simp add: reset_def)

lemma reset_update: "reset (s\<lparr>vulnerabilities := v\<rparr>) = reset s"
  by (simp add: reset_def)

lemma parse_qs_empty: "parse_qsl L qs = [] \<Longrightarrow> parse_qs L qs = []"
  by (simp add: parse_qs_def)

lemma parse_qsl_Nil: "parse_qsl L [] = []"
  by (simp add: parse_qsl_def parse_field_def)

lemma extract_params_no_fields:
  assumes "urlparse L target_url = Inr p" and "parse_qsl L (query p) = []"
  shows "extract_params L target_url = Inr []"
  using assms by (simp add: extract_params_def parse_qs_empty)

lemma params_or_extract_falsy:
  assumes "params0 = None \<or> params0 = Some []"
  shows "params_or_extract L target_url params0 = extract_params L target_url"
  using assms by auto

lemma xss_scan_no_params:
  assumes "params_or_extract L target_url params0 = Inr []"
  shows "xss_scan L net target_url params0 (s, w) = (Inr [], (reset s, w))"
  using assms by (simp add: xss_scan_def reset_vulnerabilities)

lemma sqli_scan_no_params:
  assumes "params_or_extract L target_url params0 = Inr []"
  shows "sqli_scan L net target_url params0 (s, w) = (Inr [], (reset s, w))"
  using assms by (simp add: sqli_scan_def reset_vulnerabilities)

lemma urlparse_example_plain:
  "urlparse example_urllib ''http://example.com''
     = Inr \<lparr>scheme = ''http'', netloc = ''example.com'', query = []\<rparr>"
  by (simp add: urlparse_def example_urllib_def split_scheme_def is_ascii_alpha_def
      scheme_chars_def lower_def lower_char_def is_netloc_end_def)

lemma urlparse_example_blank:
  "urlparse example_urllib ''http://example.com?name=&id=''
     = Inr \<lparr>scheme = ''http'', netloc = ''example.com'', query = ''name=&id=''\<rparr>"
  by (simp add: urlparse_def example_urllib_def split_scheme_def is_ascii_alpha_def
      scheme_chars_def lower_def lower_char_def is_netloc_end_def)

subsection \<open>Scans without parameters\<close>

text \<open>
  Claim C2. For every target URL whose query string is empty, when no \<open>params\<close>
  argument is supplied (or an empty one), the XSS scan and the SQLi scan each return
  an empty Finding list, and the list of requests sent is unchanged: no HTTP request
  is issued.
\<close>

theorem empty_query_no_findings:
  assumes "urlparse L target_url = Inr p" and "query p = []"
      and "params0 = None \<or> params0 = Some []"
  shows "xss_scan L net target_url params0 (s, w) = (Inr [], (reset s, w))
       \<and> sqli_scan L net target_url params0 (s, w) = (Inr [], (reset s, w))"
proof -
  have "extract_params L target_url = Inr []"
    using assms(1,2) by (simp add: extract_params_no_fields parse_qsl_Nil)
  then have "params_or_extract L target_url params0 = Inr []"
    using assms(3) by (simp add: params_or_extract_falsy)
  then show ?thesis
    by (simp add: xss_scan_no_params sqli_scan_no_params)
qed

text \<open>The target \<open>http://example.com\<close> has an empty query string.\<close>

theorem empty_query_no_findings_witness:
  "xss_scan example_urllib (always_answers ''x'') ''http://example.com'' None (example_scanner, [])
     = (Inr [], (example_scanner, []))
   \<and> sqli_scan example_urllib (always_answers ''x'') ''http://example.com'' None (example_scanner, [])
     = (Inr [], (example_scanner, []))"
  using empty_query_no_findings [OF urlparse_example_plain, of None "always_answers ''x''" example_scanner "[]"]
  by (simp add: reset_def example_scanner_def)

lemma parse_field_blank:
  assumes "assigns_empty_value f"
  shows "parse_field L f = []"
proof -
  from assms have f: "f = butlast f @ [CHR ''='']" and nin: "CHR ''='' \<notin> set (butlast f)"
    by (auto simp: assigns_empty_value_def) (metis append_butlast_last_id)
  have "\<forall>x \<in> set (butlast f). x \<noteq> CHR ''=''"
    using nin by auto
  then have "dropWhile (\<lambda>c. c \<noteq> CHR ''='') (butlast f @ [CHR ''='']) = [CHR ''='']"
    by simp
  then have "snd (split_once CHR ''='' f) = Some []"
    using f by (simp add: split_once_def)
  then show ?thesis
    by (cases "split_once CHR ''='' f") (auto simp: parse_field_def)
qed

lemma parse_qsl_blank:
  assumes "\<forall>f \<in> set (split_char CHR ''&'' qs). assigns_empty_value f"
  shows "parse_qsl L qs = []"
  using assms by (simp add: parse_qsl_def parse_field_blank)

text \<open>
  Claim C9. For every target URL whose query string assigns only empty values to its
  parameters, \<open>extract_params\<close> returns the empty dictionary although the query string
  is not empty, and the XSS and SQLi scans return an empty Finding list without
  sending a request.
\<close>

theorem blank_values_no_findings:
  assumes "urlparse L target_url = Inr p"
      and "\<forall>f \<in> set (split_char CHR ''&'' (query p)). assigns_empty_value f"
      and "params0 = None \<or> params0 = Some []"
  shows "query p \<noteq> []
       \<and> extract_params L target_url = Inr []
       \<and> xss_scan L net target_url params0 (s, w) = (Inr [], (reset s, w))
       \<and> sqli_scan L net target_url params0 (s, w) = (Inr [], (reset s, w))"
proof -
  have q: "query p \<noteq> []"
    using assms(2) by (auto simp: assigns_empty_value_def)
  have e: "extract_params L target_url = Inr []"
    using assms(1,2) by (simp add: extract_params_no_fields parse_qsl_blank)
  then have "params_or_extract L target_url params0 = Inr []"
    using assms(3) by (simp add: params_or_extract_falsy)
  then show ?thesis
    using q e by (simp add: xss_scan_no_params sqli_scan_no_params)
qed

text \<open>The target \<open>http://example.com?name=&id=\<close> of the claim.\<close>

theorem blank_values_no_findings_witness:
  "extract_params example_urllib ''http://example.com?name=&id='' = Inr []
   \<and> xss_scan example_urllib (always_answers ''x'') ''http://example.com?name=&id='' None (example_scanner, [])
     = (Inr [], (example_scanner, []))
   \<and> sqli_scan example_urllib (always_answers ''x'') ''http://example.com?name=&id='' None (example_scanner, [])
     = (Inr [], (example_scanner, []))"
  using blank_values_no_findings [OF urlparse_example_blank, of None "always_answers ''x''" example_scanner "[]"]
  by (simp add: reset_def example_scanner_def assigns_empty_value_def)

subsection \<open>The accumulator is reset by every scan\<close>

text \<open>
  Claim C7. For every scanner strategy, \<open>scan\<close> clears the accumulator before it runs:
  whatever earlier calls on the instance left in \<open>vulnerabilities\<close>, the call returns
  the same list, leaves the same state and sends the same requests as on an instance
  whose accumulator is empty.
\<close>

theorem scan_ignores_accumulator:
  "xss_scan L net target_url params0 (s\<lparr>vulnerabilities := v\<rparr>, w)
     = xss_scan L net target_url params0 (s\<lparr>vulnerabilities := []\<rparr>, w)
   \<and> sqli_scan L net target_url params0 (s\<lparr>vulnerabilities := v\<rparr>, w)
     = sqli_scan L net target_url params0 (s\<lparr>vulnerabilities := []\<rparr>, w)
   \<and> http_scan net target_url params0 (s\<lparr>vulnerabilities := v\<rparr>, w)
     = http_scan net target_url params0 (s\<lparr>vulnerabilities := []\<rparr>, w)
   \<and> redirect_scan L net target_url params0 (s\<lparr>vulnerabilities := v\<rparr>, w)
     = redirect_scan L net target_url params0 (s\<lparr>vulnerabilities := []\<rparr>, w)"
  by (simp add: xss_scan_def sqli_scan_def http_scan_def redirect_scan_def reset_update)

subsection \<open>The JSON report\<close>

lemma lower_json: "lower ''json'' = ''json''"
  by (simp add: lower_def lower_char_def)

text \<open>
  Claim C8. The JSON report written for a Finding list and a target URL is a fixed
  text before and a fixed text after the encoded value of \<open>scan_timestamp\<close>, and the
  two texts depend on the Finding list and the target only, not on the time of the
  run and not on the output path: two runs on the same Finding list and target write
  the same file contents except for that value.
\<close>

theorem json_report_differs_only_in_timestamp:
  "\<exists>before after. \<forall>now output_path.
     generate_report now vulns target_url output_path ''json''
       = Write_file output_path (before @ encode_basestring now @ after)"
proof -
  define before where
    "before = ''{'' @ newline_indent 1 @ encode_basestring ''scan_timestamp'' @ '': ''"
  define after where
    "after = '','' @ newline_indent 1
       @ join ('','' @ newline_indent 1)
           (iterencode_dict 1
              [(''target_url'', JStr target_url),
               (''total_vulnerabilities'', JInt (int (length vulns))),
               (''vulnerabilities'', JList (map JDict vulns))])
       @ newline_indent 0 @ ''}''"
  have "\<forall>now output_path. generate_report now vulns target_url output_path ''json''
          = Write_file output_path (before @ encode_basestring now @ after)"
    by (simp add: generate_report_def lower_json generate_json_report_def json_dump_def
        build_report_def before_def after_def)
  then show ?thesis by blast
qed

subsection \<open>The HTTP misconfiguration scan and transport errors\<close>

lemma set_dict_keys_dict_set:
  "set (dict_keys (dict_set d k v)) = insert k (set (dict_keys d))"
  by (induction d k v rule: dict_set.induct) (auto simp: dict_keys_def)

lemma dict_get_None_iff: "dict_get d k = None \<longleftrightarrow> k \<notin> set (dict_keys d)"
  by (simp add: dict_get_def dict_keys_def map_of_eq_None_iff)

lemma lower_headers_keys_fold:
  "set (dict_keys (fold (\<lambda>(k, v) d. dict_set d (lower k) v) hs d0))
     = set (dict_keys d0) \<union> set (map (lower \<circ> fst) hs)"
  by (induction hs arbitrary: d0) (auto simp: set_dict_keys_dict_set)

lemma lower_headers_absent:
  "dict_get (lower_headers hs) k = None \<longleftrightarrow> k \<notin> set (map (lower \<circ> fst) hs)"
proof -
  have "set (dict_keys (lower_headers hs)) = set (map (lower \<circ> fst) hs)"
    unfolding lower_headers_def lower_headers_keys_fold by (simp add: dict_keys_def)
  then show ?thesis
    by (simp add: dict_get_None_iff)
qed

lemma fold_append_vuln:
  "vulnerabilities (fold (\<lambda>x s'. if P x then append_vuln (F x) s' else s') xs s)
     = vulnerabilities s @ map F (filter P xs)"
  by (induction xs arbitrary: s) (auto simp: append_vuln_def)

lemma fold_append_vuln_timeout:
  "timeout (fold (\<lambda>x s'. if P x then append_vuln (F x) s' else s') xs s) = timeout s"
  by (induction xs arbitrary: s) (auto simp: append_vuln_def)

lemma reset_timeout: "timeout (reset s) = timeout s"
  by (simp add: reset_def)

lemma check_headers_vulnerabilities:
  "vulnerabilities (check_headers target_url response s)
     = vulnerabilities s
       @ map (\<lambda>header. missing_header_finding header target_url response)
           (filter (\<lambda>header. lower header \<notin> set (map (lower \<circ> fst) (resp_headers response)))
              REQUIRED_SECURITY_HEADERS)"
  unfolding check_headers_def Let_def lower_headers_absent by (rule fold_append_vuln)

text \<open>
  Claim C5. In the HTTP misconfiguration scan, if the initial GET fails with a
  transport error the scan returns an empty Finding list; if the GET succeeds and the
  OPTIONS request fails, the scan returns the missing-header Findings of the GET
  response, one for each required header that is absent from it (compared in lower
  case), and nothing from the method check.
\<close>

theorem http_scan_transport_errors:
  "(net w (get_request target_url [] (timeout s) True) = None
      \<longrightarrow> http_scan net target_url params0 (s, w)
            = (Inr [], (reset s, w @ [get_request target_url [] (timeout s) True])))
   \<and> (\<forall>response.
        net w (get_request target_url [] (timeout s) True) = Some response
        \<and> net (w @ [get_request target_url [] (timeout s) True])
              (options_request target_url (timeout s)) = None
      \<longrightarrow> fst (http_scan net target_url params0 (s, w))
            = Inr (map (\<lambda>header. missing_header_finding header target_url response)
                     (filter (\<lambda>header. lower header \<notin> set (map (lower \<circ> fst) (resp_headers response)))
                        REQUIRED_SECURITY_HEADERS)))"
proof -
  have t: "timeout (check_headers target_url response (reset s)) = timeout s" for response
    by (simp add: check_headers_def fold_append_vuln_timeout reset_def)
  show ?thesis
    by (simp add: http_scan_def requests_get_def requests_options_def send_def
        reset_vulnerabilities check_headers_vulnerabilities t reset_timeout)
qed

text \<open>
  A network that fails every request, and one that answers the GET with a response
  carrying \<open>X-FRAME-OPTIONS\<close> and fails the OPTIONS request.
\<close>

theorem http_scan_transport_errors_witness:
  "http_scan no_network ''http://example.com'' None (example_scanner, [])
     = (Inr [], (example_scanner, [get_request ''http://example.com'' [] 10 True]))
   \<and> fst (http_scan
            (answers_get_only
               ((example_response ''x'')\<lparr>resp_headers := [(''X-FRAME-OPTIONS'', ''DENY'')]\<rparr>))
            ''http://example.com'' None (example_scanner, []))
     = Inr (map (\<lambda>header. missing_header_finding header ''http://example.com''
                   ((example_response ''x'')\<lparr>resp_headers := [(''X-FRAME-OPTIONS'', ''DENY'')]\<rparr>))
              [''X-XSS-Protection'', ''Content-Security-Policy'',
               ''Strict-Transport-Security'', ''X-Content-Type-Options''])"
  using http_scan_transport_errors [of no_network "[]" "''http://example.com''" example_scanner None]
    http_scan_transport_errors
      [of "answers_get_only ((example_response ''x'')\<lparr>resp_headers := [(''X-FRAME-OPTIONS'', ''DENY'')]\<rparr>)"
          "[]" "''http://example.com''" example_scanner None]
  by (simp add: no_network_def answers_get_only_def example_scanner_def reset_def
      get_request_def options_request_def REQUIRED_SECURITY_HEADERS_def lower_def lower_char_def)

subsection \<open>The SQL injection scan\<close>

lemma for_each_invariant:
  assumes "P st" and "\<And>x st'. x \<in> set xs \<Longrightarrow> P st' \<Longrightarrow> P (snd (body x st'))"
  shows "P (snd (for_each body xs st))"
  using assms
proof (induction xs arbitrary: st)
  case Nil
  then show ?case by simp
next
  case (Cons x xs)
  have step: "P (snd (body x st))"
    using Cons.prems by simp
  show ?case
  proof (cases "body x st")
    case (Pair e st')
    with step have p: "P st'" by simp
    show ?thesis
    proof (cases e)
      case None
      have "P (snd (for_each body xs st'))"
        using Cons.IH [OF p] Cons.prems(2) by simp
      with Pair None show ?thesis by simp
    next
      case (Some a)
      with Pair p show ?thesis by simp
    qed
  qed
qed

lemma check_error_patterns_find:
  "check_error_patterns pats payload param response s
     = (case find (contains (resp_text response)) pats of
          None \<Rightarrow> s
        | Some pat \<Rightarrow> append_vuln (sqli_error_finding payload param response pat) s)"
  by (induction pats) auto

lemma sqli_trial_unfold:
  "sqli_trial net target_url params payload param (s, w) =
     (let probe = get_request (get_base_url target_url) (dict_set params param payload) (timeout s) False
      in case net w probe of
           None \<Rightarrow> (None, (s, w @ [probe]))
         | Some response \<Rightarrow>
             (let s1 = (case find (contains (resp_text response)) SQL_ERROR_PATTERNS of
                          None \<Rightarrow> s
                        | Some pat \<Rightarrow> append_vuln (sqli_error_finding payload param response pat) s)
              in case dict_get params param of
                   None \<Rightarrow> (Some KeyError, (s1, w @ [probe]))
                 | Some original \<Rightarrow>
                     (let baseline = get_request (get_base_url target_url) [(param, original)] (timeout s) True
                      in case net (w @ [probe]) baseline of
                           None \<Rightarrow> (None, (s1, w @ [probe, baseline]))
                         | Some original_response \<Rightarrow>
                             if 50 < length_diff_of response original_response
                             then (None,
                                   (append_vuln
                                      (sqli_boolean_finding payload param response
                                         (length_diff_of response original_response)) s1,
                                    w @ [probe, baseline]))
                             else (None, (s1, w @ [probe, baseline])))))"
  by (simp add: sqli_trial_def requests_get_def send_def Let_def check_error_patterns_find
      append_vuln_def RESPONSE_LENGTH_THRESHOLD_def split: option.splits)




lemma snd_scan_result: "snd (scan_result r) = snd r"
  by (cases r) (auto simp: scan_result_def split: option.splits)

lemma sqli_scan_invariant:
  assumes "I (reset s, w)"
      and "\<And>params payload param st.
             params_or_extract L target_url params0 = Inr params \<Longrightarrow> payload \<in> set SQLI_PAYLOADS
             \<Longrightarrow> param \<in> set (dict_keys params) \<Longrightarrow> I st
             \<Longrightarrow> I (snd (sqli_trial net target_url params payload param st))"
  shows "I (snd (sqli_scan L net target_url params0 (s, w)))"
proof (cases "params_or_extract L target_url params0")
  case (Inl e)
  then show ?thesis using assms(1) by (simp add: sqli_scan_def)
next
  case (Inr params)
  have "I (snd (for_each (\<lambda>payload. for_each (sqli_trial net target_url params payload) (dict_keys params))
                  SQLI_PAYLOADS (reset s, w)))"
  proof (rule for_each_invariant [where P = I])
    show "I (reset s, w)" by (rule assms(1))
  next
    fix payload st'
    assume payload: "payload \<in> set SQLI_PAYLOADS" and st': "I st'"
    show "I (snd (for_each (sqli_trial net target_url params payload) (dict_keys params) st'))"
    proof (rule for_each_invariant [where P = I])
      show "I st'" by (rule st')
    next
      fix param st''
      assume "param \<in> set (dict_keys params)" and "I st''"
      then show "I (snd (sqli_trial net target_url params payload param st''))"
        using assms(2) [OF Inr payload] by simp
    qed
  qed
  then show ?thesis
    using Inr assms(1) by (simp add: sqli_scan_def snd_scan_result Let_def)
qed



lemma distinct_dict_set:
  "distinct (dict_keys d) \<Longrightarrow> distinct (dict_keys (dict_set d k v))"
proof (induction d k v rule: dict_set.induct)
  case (1 k v)
  then show ?case by (simp add: dict_keys_def)
next
  case (2 k' v' d k v)
  have "set (dict_keys (dict_set d k v)) = insert k (set (dict_keys d))"
    by (rule set_dict_keys_dict_set)
  with 2 show ?case by (auto simp: dict_keys_def)
qed

lemma distinct_parse_qs_add:
  "distinct (dict_keys d) \<Longrightarrow> distinct (dict_keys (parse_qs_add nv d))"
  by (cases nv) (auto simp: distinct_dict_set split: option.splits)

lemma distinct_fold_parse_qs_add:
  "distinct (dict_keys d) \<Longrightarrow> distinct (dict_keys (fold parse_qs_add pairs d))"
  by (induction pairs arbitrary: d) (auto simp: distinct_parse_qs_add)

lemma distinct_parse_qs: "distinct (dict_keys (parse_qs L qs))"
  unfolding parse_qs_def by (rule distinct_fold_parse_qs_add) (simp add: dict_keys_def)

lemma first_values_keys: "first_values d = Inr d' \<Longrightarrow> dict_keys d' = dict_keys d"
  by (induction d arbitrary: d' rule: first_values.induct)
    (auto simp: dict_keys_def split: list.splits sum.splits)

lemma distinct_extract_params:
  assumes "extract_params L target_url = Inr d"
  shows "distinct (dict_keys d)"
proof (cases "urlparse L target_url")
  case (Inl e)
  with assms show ?thesis by (simp add: extract_params_def)
next
  case (Inr p)
  show ?thesis
  proof (cases "parse_qs L (query p) = []")
    case True
    with assms Inr show ?thesis by (simp add: extract_params_def dict_keys_def)
  next
    case False
    with assms Inr have "first_values (parse_qs L (query p)) = Inr d"
      by (simp add: extract_params_def)
    then show ?thesis
      using distinct_parse_qs [of L "query p"] by (simp add: first_values_keys)
  qed
qed

lemma distinct_params_or_extract:
  assumes "\<forall>d. params0 = Some d \<longrightarrow> distinct (dict_keys d)"
      and "params_or_extract L target_url params0 = Inr params"
  shows "distinct (dict_keys params)"
  using assms
  by (cases "(L, target_url, params0)" rule: params_or_extract.cases)
    (auto simp: distinct_extract_params)

lemma for_each_count:
  fixes c :: "'s \<Rightarrow> nat"
  assumes "distinct xs"
      and "\<And>x st'. x \<in> set xs \<Longrightarrow> x \<noteq> x0 \<Longrightarrow> c (snd (body x st')) = c st'"
      and "\<And>st'. c (snd (body x0 st')) \<le> c st' + 1"
  shows "c (snd (for_each body xs st)) \<le> c st + (if x0 \<in> set xs then 1 else 0)"
  using assms(1,2)
proof (induction xs arbitrary: st)
  case Nil
  then show ?case by simp
next
  case (Cons x xs)
  obtain e st' where b: "body x st = (e, st')"
    by (cases "body x st")
  have rest: "c (snd (for_each body xs st')) \<le> c st' + (if x0 \<in> set xs then 1 else 0)"
    using Cons.IH [of st'] Cons.prems by simp
  have one: "c st' \<le> c st + (if x = x0 then 1 else 0)"
  proof (cases "x = x0")
    case True
    then show ?thesis using assms(3) [of st] b by simp
  next
    case False
    then show ?thesis using Cons.prems(2) [of x st] b by simp
  qed
  have nodup: "x = x0 \<Longrightarrow> x0 \<notin> set xs"
    using Cons.prems(1) by auto
  show ?case
  proof (cases e)
    case None
    with b rest one nodup show ?thesis by (auto split: if_splits)
  next
    case (Some a)
    with b one show ?thesis by (auto split: if_splits)
  qed
qed

lemma error_based_for_error_finding:
  "error_based_for payload param (sqli_error_finding payload' param' response pat)
     \<longleftrightarrow> payload' = payload \<and> param' = param"
  by (auto simp: error_based_for_def is_error_based_def sqli_error_finding_def dict_get_def)

lemma error_based_for_boolean_finding:
  "\<not> error_based_for payload param (sqli_boolean_finding payload' param' response d)"
  by (simp add: error_based_for_def is_error_based_def sqli_boolean_finding_def dict_get_def)

lemma sqli_trial_count_other:
  assumes "payload' \<noteq> payload \<or> param' \<noteq> param"
  shows "count_error_based payload param (snd (sqli_trial net target_url params payload' param' st))
           = count_error_based payload param st"
  using assms
  by (cases st)
    (auto simp: sqli_trial_unfold Let_def append_vuln_def count_error_based_def
      error_based_for_error_finding error_based_for_boolean_finding split: option.splits)

lemma sqli_trial_count_le:
  "count_error_based payload param (snd (sqli_trial net target_url params payload' param' st))
     \<le> count_error_based payload param st + 1"
  by (cases st)
    (auto simp: sqli_trial_unfold Let_def append_vuln_def count_error_based_def
      error_based_for_boolean_finding split: option.splits)

lemma distinct_SQLI_PAYLOADS: "distinct SQLI_PAYLOADS"
  by (simp add: SQLI_PAYLOADS_def)

lemma sqli_loop_count:
  assumes "distinct (dict_keys params)"
  shows "count_error_based payload param
           (snd (for_each (\<lambda>payload'. for_each (sqli_trial net target_url params payload') (dict_keys params))
                   SQLI_PAYLOADS st))
         \<le> count_error_based payload param st + 1"
proof -
  let ?c = "count_error_based payload param"
  let ?inner = "\<lambda>payload'. for_each (sqli_trial net target_url params payload') (dict_keys params)"
  have other: "?c (snd (?inner payload' st')) = ?c st'" if "payload' \<noteq> payload" for payload' st'
  proof (rule for_each_invariant [where P = "\<lambda>st''. ?c st'' = ?c st'"])
    show "?c st' = ?c st'" by simp
  next
    fix param' st''
    assume "?c st'' = ?c st'"
    then show "?c (snd (sqli_trial net target_url params payload' param' st'')) = ?c st'"
      using that by (simp add: sqli_trial_count_other)
  qed
  have same: "?c (snd (?inner payload st')) \<le> ?c st' + 1" for st'
  proof -
    have "?c (snd (?inner payload st')) \<le> ?c st' + (if param \<in> set (dict_keys params) then 1 else 0)"
    proof (rule for_each_count [OF assms])
      fix param' st''
      assume "param' \<noteq> param"
      then show "?c (snd (sqli_trial net target_url params payload param' st'')) = ?c st''"
        by (simp add: sqli_trial_count_other)
    next
      fix st''
      show "?c (snd (sqli_trial net target_url params payload param st'')) \<le> ?c st'' + 1"
        by (rule sqli_trial_count_le)
    qed
    then show ?thesis by (simp split: if_splits)
  qed
  have "?c (snd (for_each ?inner SQLI_PAYLOADS st))
          \<le> ?c st + (if payload \<in> set SQLI_PAYLOADS then 1 else 0)"
  proof (rule for_each_count [OF distinct_SQLI_PAYLOADS])
    fix payload' st'
    assume "payload' \<noteq> payload"
    then show "?c (snd (?inner payload' st')) = ?c st'"
      by (rule other)
  next
    fix st'
    show "?c (snd (?inner payload st')) \<le> ?c st' + 1"
      by (rule same)
  qed
  then show ?thesis by (simp split: if_splits)
qed

lemma boolean_finding_not_error: "\<not> is_error_based (sqli_boolean_finding payload param response d)"
  by (simp add: is_error_based_def sqli_boolean_finding_def dict_get_def)

lemma error_finding_description:
  "dict_get (sqli_error_finding payload param response pat) ''description''
     = Some (JStr (''SQL error detected: '' @ pat))"
  by (simp add: sqli_error_finding_def dict_get_def)

lemma sqli_trial_error_step:
  assumes "timeout (fst st) = t"
      and "\<forall>f \<in> set (vulnerabilities (fst st)).
             is_error_based f \<longrightarrow> error_evidence net target_url t params f"
      and "payload \<in> set SQLI_PAYLOADS" and "param \<in> set (dict_keys params)"
  shows "timeout (fst (snd (sqli_trial net target_url params payload param st))) = t
       \<and> (\<forall>f \<in> set (vulnerabilities (fst (snd (sqli_trial net target_url params payload param st)))).
            is_error_based f \<longrightarrow> error_evidence net target_url t params f)"
proof -
  obtain s w where st: "st = (s, w)" by (cases st)
  have t: "timeout s = t" using assms(1) st by simp
  have new: "error_evidence net target_url t params (sqli_error_finding payload param response pat)"
    if "net w (get_request (get_base_url target_url) (dict_set params param payload) t False)
          = Some response"
      and "find (contains (resp_text response)) SQL_ERROR_PATTERNS = Some pat"
    for response pat
    unfolding error_evidence_def using that assms(3,4) error_finding_description by blast
  show ?thesis
    using assms(2) t new unfolding st
    by (auto simp: sqli_trial_unfold Let_def append_vuln_def boolean_finding_not_error
        split: option.splits)
qed

text \<open>
  Claim C4. In a single SQLi scan, for every payload and parameter, at most one Finding
  of kind SQLi-ErrorBased is emitted. Every error-based Finding of the scan is the
  Finding of one payload and one parameter of the scan, built from the response to the
  payload request of that payload and parameter, and the pattern it reports is the
  first of the 8 fixed signatures that occurs in the body of that response. The keys
  of a dictionary passed as \<open>params\<close> are distinct, as the keys of a Python dictionary
  are.
\<close>

theorem error_based_at_most_once:
  assumes "\<forall>d. params0 = Some d \<longrightarrow> distinct (dict_keys d)"
  shows "length (filter (\<lambda>f. is_error_based f
                           \<and> dict_get f ''payload'' = Some (JStr payload)
                           \<and> dict_get f ''parameter'' = Some (JStr param))
                   (vulnerabilities (fst (snd (sqli_scan L net target_url params0 (s, w)))))) \<le> 1
       \<and> (\<forall>f \<in> set (vulnerabilities (fst (snd (sqli_scan L net target_url params0 (s, w))))).
            is_error_based f \<longrightarrow>
            (\<exists>params payload' param' h response pat.
               params_or_extract L target_url params0 = Inr params
             \<and> payload' \<in> set SQLI_PAYLOADS
             \<and> param' \<in> set (dict_keys params)
             \<and> net h (get_request (get_base_url target_url) (dict_set params param' payload')
                         (timeout s) False)
                 = Some response
             \<and> find (contains (resp_text response)) SQL_ERROR_PATTERNS = Some pat
             \<and> f = sqli_error_finding payload' param' response pat
             \<and> dict_get f ''description'' = Some (JStr (''SQL error detected: '' @ pat))))
       \<and> length SQL_ERROR_PATTERNS = 8"
proof -
  let ?final = "snd (sqli_scan L net target_url params0 (s, w))"
  have count: "count_error_based payload param ?final \<le> 1"
  proof (cases "params_or_extract L target_url params0")
    case (Inl e)
    then show ?thesis
      by (simp add: sqli_scan_def count_error_based_def reset_def)
  next
    case (Inr params)
    have "distinct (dict_keys params)"
      using assms Inr by (rule distinct_params_or_extract)
    then have "count_error_based payload param
                 (snd (for_each (\<lambda>payload'. for_each (sqli_trial net target_url params payload') (dict_keys params))
                         SQLI_PAYLOADS (reset s, w)))
               \<le> count_error_based payload param (reset s, w) + 1"
      by (rule sqli_loop_count)
    then show ?thesis
      using Inr by (simp add: sqli_scan_def snd_scan_result Let_def count_error_based_def reset_def)
  qed
  define I :: "scan_state \<Rightarrow> bool" where
    "I = (\<lambda>st. timeout (fst st) = timeout s
            \<and> (\<forall>params. params_or_extract L target_url params0 = Inr params \<longrightarrow>
                 (\<forall>f \<in> set (vulnerabilities (fst st)).
                    is_error_based f \<longrightarrow> error_evidence net target_url (timeout s) params f)))"
  have final: "I ?final"
  proof (rule sqli_scan_invariant [where I = I])
    show "I (reset s, w)"
      by (simp add: I_def reset_def)
  next
    fix params payload' param' and st :: scan_state
    assume "params_or_extract L target_url params0 = Inr params"
      and "payload' \<in> set SQLI_PAYLOADS" and "param' \<in> set (dict_keys params)" and "I st"
    then show "I (snd (sqli_trial net target_url params payload' param' st))"
      using sqli_trial_error_step [of st "timeout s" net target_url params payload' param']
      by (simp add: I_def)
  qed
  have evid: "\<exists>params. params_or_extract L target_url params0 = Inr params
                \<and> error_evidence net target_url (timeout s) params f"
    if f: "f \<in> set (vulnerabilities (fst ?final))" and e: "is_error_based f" for f
  proof (cases "params_or_extract L target_url params0")
    case (Inl e)
    with f show ?thesis by (simp add: sqli_scan_def reset_def)
  next
    case (Inr params)
    with final f e show ?thesis by (simp add: I_def)
  qed
  have eight: "length SQL_ERROR_PATTERNS = 8"
    by (simp add: SQL_ERROR_PATTERNS_def)
  have second:
    "\<forall>f \<in> set (vulnerabilities (fst ?final)).
       is_error_based f \<longrightarrow>
       (\<exists>params payload' param' h response pat.
          params_or_extract L target_url params0 = Inr params
        \<and> payload' \<in> set SQLI_PAYLOADS
        \<and> param' \<in> set (dict_keys params)
        \<and> net h (get_request (get_base_url target_url) (dict_set params param' payload')
                    (timeout s) False)
            = Some response
        \<and> find (contains (resp_text response)) SQL_ERROR_PATTERNS = Some pat
        \<and> f = sqli_error_finding payload' param' response pat
        \<and> dict_get f ''description'' = Some (JStr (''SQL error detected: '' @ pat)))"
    using evid unfolding error_evidence_def by blast
  have same: "error_based_for payload param
                = (\<lambda>f. is_error_based f
                        \<and> dict_get f ''payload'' = Some (JStr payload)
                        \<and> dict_get f ''parameter'' = Some (JStr param))"
    by (rule ext) (simp add: error_based_for_def)
  from count have first:
    "length (filter (\<lambda>f. is_error_based f
                           \<and> dict_get f ''payload'' = Some (JStr payload)
                           \<and> dict_get f ''parameter'' = Some (JStr param))
              (vulnerabilities (fst ?final))) \<le> 1"
    by (simp add: count_error_based_def same)
  from first second eight show ?thesis
    by (intro conjI)
qed

text \<open>
  A body in which two signatures occur: the Finding of a trial is built from the
  response to its payload request and names the earlier signature of the list,
  \<open>SQL syntax\<close>, and there is one such Finding for the payload and the parameter.
\<close>

theorem error_based_at_most_once_witness:
  "distinct (dict_keys [(''id'', ''1'')])
   \<and> sqli_error_finding ''1; DROP TABLE users--'' ''id''
        (example_response ''error in your SQL syntax near mysql_fetch'') ''SQL syntax''
     \<in> set (vulnerabilities (fst (snd (sqli_scan example_urllib
          (always_answers ''error in your SQL syntax near mysql_fetch'')
          ''http://example.com/item'' (Some [(''id'', ''1'')]) (example_scanner, [])))))
   \<and> is_error_based
        (sqli_error_finding ''1; DROP TABLE users--'' ''id''
           (example_response ''error in your SQL syntax near mysql_fetch'') ''SQL syntax'')
   \<and> length (filter (\<lambda>f. is_error_based f
                         \<and> dict_get f ''payload'' = Some (JStr ''1; DROP TABLE users--'')
                         \<and> dict_get f ''parameter'' = Some (JStr ''id''))
                (vulnerabilities (fst (snd (sqli_scan example_urllib
                   (always_answers ''error in your SQL syntax near mysql_fetch'')
                   ''http://example.com/item'' (Some [(''id'', ''1'')]) (example_scanner, [])))))) \<le> 1
   \<and> (\<exists>params payload' param' h response pat.
         params_or_extract example_urllib ''http://example.com/item'' (Some [(''id'', ''1'')]) = Inr params
       \<and> always_answers ''error in your SQL syntax near mysql_fetch'' h
            (get_request (get_base_url ''http://example.com/item'') (dict_set params param' payload')
               (timeout example_scanner) False)
           = Some response
       \<and> find (contains (resp_text response)) SQL_ERROR_PATTERNS = Some pat
       \<and> sqli_error_finding ''1; DROP TABLE users--'' ''id''
            (example_response ''error in your SQL syntax near mysql_fetch'') ''SQL syntax''
           = sqli_error_finding payload' param' response pat)
   \<and> map (\<lambda>f. dict_get f ''description'')
         (filter (\<lambda>f. is_error_based f
                         \<and> dict_get f ''payload'' = Some (JStr ''1; DROP TABLE users--'')
                         \<and> dict_get f ''parameter'' = Some (JStr ''id''))
            (vulnerabilities (fst (snd (sqli_scan example_urllib
               (always_answers ''error in your SQL syntax near mysql_fetch'')
               ''http://example.com/item'' (Some [(''id'', ''1'')]) (example_scanner, []))))))
     = [Some (JStr ''SQL error detected: SQL syntax'')]"
proof -
  let ?f = "sqli_error_finding ''1; DROP TABLE users--'' ''id''
        (example_response ''error in your SQL syntax near mysql_fetch'') ''SQL syntax''"
  have keys: "distinct (dict_keys [(''id'', ''1'')])"
    by (simp add: dict_keys_def)
  have hyp: "\<forall>d. Some [(''id'', ''1'')] = Some d \<longrightarrow> distinct (dict_keys d)"
    using keys by simp
  have emitted:
    "?f \<in> set (vulnerabilities (fst (snd (sqli_scan example_urllib
          (always_answers ''error in your SQL syntax near mysql_fetch'')
          ''http://example.com/item'' (Some [(''id'', ''1'')]) (example_scanner, [])))))"
    by code_simp
  have kind: "is_error_based ?f"
    by (simp add: is_error_based_def sqli_error_finding_def dict_get_def)
  have first: "map (\<lambda>f. dict_get f ''description'')
         (filter (\<lambda>f. is_error_based f
                         \<and> dict_get f ''payload'' = Some (JStr ''1; DROP TABLE users--'')
                         \<and> dict_get f ''parameter'' = Some (JStr ''id''))
            (vulnerabilities (fst (snd (sqli_scan example_urllib
               (always_answers ''error in your SQL syntax near mysql_fetch'')
               ''http://example.com/item'' (Some [(''id'', ''1'')]) (example_scanner, []))))))
     = [Some (JStr ''SQL error detected: SQL syntax'')]"
    by code_simp
  note fact = error_based_at_most_once
    [where ?params0.0 = "Some [(''id'', ''1'')]" and payload = "''1; DROP TABLE users--''"
       and param = "''id''" and L = example_urllib
       and net = "always_answers ''error in your SQL syntax near mysql_fetch''"
       and target_url = "''http://example.com/item''" and s = example_scanner and w = "[]",
     OF hyp]
  note count = fact [THEN conjunct1]
  note evidence = fact [THEN conjunct2, THEN conjunct1, rule_format, OF emitted kind]
  from evidence have tied:
    "\<exists>params payload' param' h response pat.
         params_or_extract example_urllib ''http://example.com/item'' (Some [(''id'', ''1'')]) = Inr params
       \<and> always_answers ''error in your SQL syntax near mysql_fetch'' h
            (get_request (get_base_url ''http://example.com/item'') (dict_set params param' payload')
               (timeout example_scanner) False)
           = Some response
       \<and> find (contains (resp_text response)) SQL_ERROR_PATTERNS = Some pat
       \<and> ?f = sqli_error_finding payload' param' response pat"
    by blast
  from keys emitted kind count tied first show ?thesis
    by (intro conjI)
qed

lemma sqli_trial_requests_step:
  assumes "timeout (fst st) = t"
      and "\<exists>sent. snd st = w @ sent
             \<and> (\<forall>r \<in> set sent. is_payload_request target_url t params r
                                \<or> is_baseline_request target_url t params r)"
      and "payload \<in> set SQLI_PAYLOADS" and "param \<in> set (dict_keys params)"
  shows "timeout (fst (snd (sqli_trial net target_url params payload param st))) = t
       \<and> (\<exists>sent. snd (snd (sqli_trial net target_url params payload param st)) = w @ sent
             \<and> (\<forall>r \<in> set sent. is_payload_request target_url t params r
                                \<or> is_baseline_request target_url t params r))"
proof -
  obtain s' w' where st: "st = (s', w')" by (cases st)
  from assms(2) st obtain sent where sent: "w' = w @ sent"
    and shape: "\<forall>r \<in> set sent. is_payload_request target_url t params r
                                \<or> is_baseline_request target_url t params r"
    by auto
  have t: "timeout s' = t" using assms(1) st by simp
  let ?probe = "get_request (get_base_url target_url) (dict_set params param payload) t False"
  have probe: "is_payload_request target_url t params ?probe"
    unfolding is_payload_request_def using assms(3,4) by blast
  have baseline: "is_baseline_request target_url t params
                    (get_request (get_base_url target_url) [(param, original)] t True)"
    if "dict_get params param = Some original" for original
    unfolding is_baseline_request_def using that by blast
  have one: "\<exists>sent'. w' @ [?probe] = w @ sent'
               \<and> (\<forall>r \<in> set sent'. is_payload_request target_url t params r
                                   \<or> is_baseline_request target_url t params r)"
    using sent shape probe by (intro exI [of _ "sent @ [?probe]"]) auto
  have two: "\<exists>sent'. w' @ [?probe, get_request (get_base_url target_url) [(param, original)] t True] = w @ sent'
               \<and> (\<forall>r \<in> set sent'. is_payload_request target_url t params r
                                   \<or> is_baseline_request target_url t params r)"
    if "dict_get params param = Some original" for original
    using sent shape probe baseline [OF that]
    by (intro exI [of _ "sent @ [?probe, get_request (get_base_url target_url) [(param, original)] t True]"]) auto
  show ?thesis
    unfolding st using t one two
    by (simp add: sqli_trial_unfold Let_def append_vuln_def split: option.splits)
qed

lemma sqli_scan_requests_shape:
  assumes "params_or_extract L target_url params0 = Inr params"
  shows "\<exists>sent. snd (snd (sqli_scan L net target_url params0 (s, w))) = w @ sent
       \<and> (\<forall>r \<in> set sent.
            (\<exists>payload \<in> set SQLI_PAYLOADS. \<exists>param \<in> set (dict_keys params).
               r = get_request (get_base_url target_url) (dict_set params param payload)
                     (timeout s) False)
          \<or> (\<exists>param original.
               dict_get params param = Some original
             \<and> r = get_request (get_base_url target_url) [(param, original)] (timeout s) True))"
proof -
  define I :: "scan_state \<Rightarrow> bool" where
    "I = (\<lambda>st. timeout (fst st) = timeout s
            \<and> (\<exists>sent. snd st = w @ sent
                 \<and> (\<forall>r \<in> set sent. is_payload_request target_url (timeout s) params r
                                    \<or> is_baseline_request target_url (timeout s) params r)))"
  have "I (snd (sqli_scan L net target_url params0 (s, w)))"
  proof (rule sqli_scan_invariant [where I = I])
    show "I (reset s, w)"
      by (simp add: I_def reset_def)
  next
    fix params' payload param and st :: scan_state
    assume "params_or_extract L target_url params0 = Inr params'"
      and payload: "payload \<in> set SQLI_PAYLOADS"
      and param: "param \<in> set (dict_keys params')" and inv: "I st"
    with assms have same: "params' = params" by simp
    show "I (snd (sqli_trial net target_url params' payload param st))"
      using sqli_trial_requests_step [of st "timeout s" w target_url params payload param net]
        inv payload param
      unfolding same I_def by simp
  qed
  then show ?thesis
    unfolding I_def is_payload_request_def is_baseline_request_def by simp
qed

text \<open>
  Claim C1, as amended. In the SQLi scan's boolean-based check, for every payload and
  every parameter of the dictionary, a trial whose payload request is answered sends
  exactly two requests: the payload request and then the baseline request. The
  baseline request carries the probed parameter set to its original un-injected value
  and no other parameter: the other parameters of the URL are left out of it.
\<close>

theorem baseline_request_single_parameter:
  assumes "dict_get params param = Some original"
      and "net w (get_request (get_base_url target_url) (dict_set params param payload) (timeout s) False)
             = Some response"
  shows "snd (snd (sqli_trial net target_url params payload param (s, w)))
           = w @ [get_request (get_base_url target_url) (dict_set params param payload) (timeout s) False,
                  get_request (get_base_url target_url) [(param, original)] (timeout s) True]
       \<and> req_params (last (snd (snd (sqli_trial net target_url params payload param (s, w)))))
           = [(param, original)]
       \<and> (\<forall>other. other \<noteq> param \<longrightarrow>
             dict_get (req_params (last (snd (snd (sqli_trial net target_url params payload param (s, w))))))
               other = None)"
proof -
  have log: "snd (snd (sqli_trial net target_url params payload param (s, w)))
           = w @ [get_request (get_base_url target_url) (dict_set params param payload) (timeout s) False,
                  get_request (get_base_url target_url) [(param, original)] (timeout s) True]"
    using assms by (simp add: sqli_trial_unfold Let_def split: option.splits)
  have params: "req_params (get_request (get_base_url target_url) [(param, original)] (timeout s) True)
                  = [(param, original)]"
    by (simp add: get_request_def)
  show ?thesis
    unfolding log by (simp add: params dict_get_def)
qed

text \<open>
  The first trial on the parameters of \<open>http://example.com/item?id=1&cat=2\<close>: the
  baseline request carries \<open>id\<close> and not \<open>cat\<close>.
\<close>

theorem baseline_request_single_parameter_witness:
  "dict_get [(''id'', ''1''), (''cat'', ''2'')] ''id'' = Some ''1''
   \<and> always_answers ''x'' []
        (get_request (get_base_url ''http://example.com/item?id=1&cat=2'')
           (dict_set [(''id'', ''1''), (''cat'', ''2'')] ''id'' (hd SQLI_PAYLOADS))
           (timeout example_scanner) False)
     = Some (example_response ''x'')
   \<and> snd (snd (sqli_trial (always_answers ''x'') ''http://example.com/item?id=1&cat=2''
                 [(''id'', ''1''), (''cat'', ''2'')] (hd SQLI_PAYLOADS) ''id'' (example_scanner, [])))
     = [] @ [get_request (get_base_url ''http://example.com/item?id=1&cat=2'')
               (dict_set [(''id'', ''1''), (''cat'', ''2'')] ''id'' (hd SQLI_PAYLOADS))
               (timeout example_scanner) False,
             get_request (get_base_url ''http://example.com/item?id=1&cat=2'')
               [(''id'', ''1'')] (timeout example_scanner) True]
   \<and> dict_get
        (req_params
           (last (snd (snd (sqli_trial (always_answers ''x'') ''http://example.com/item?id=1&cat=2''
                              [(''id'', ''1''), (''cat'', ''2'')] (hd SQLI_PAYLOADS) ''id''
                              (example_scanner, []))))))
        ''cat''
     = None
   \<and> snd (snd (sqli_trial (always_answers ''x'') ''http://example.com/item?id=1&cat=2''
                 [(''id'', ''1''), (''cat'', ''2'')] (hd SQLI_PAYLOADS) ''id'' (example_scanner, [])))
     = [get_request ''http://example.com/item'' [(''id'', hd SQLI_PAYLOADS), (''cat'', ''2'')] 10 False,
        get_request ''http://example.com/item'' [(''id'', ''1'')] 10 True]"
proof -
  have key: "dict_get [(''id'', ''1''), (''cat'', ''2'')] ''id'' = Some ''1''"
    by (simp add: dict_get_def)
  have answered:
    "always_answers ''x'' []
        (get_request (get_base_url ''http://example.com/item?id=1&cat=2'')
           (dict_set [(''id'', ''1''), (''cat'', ''2'')] ''id'' (hd SQLI_PAYLOADS))
           (timeout example_scanner) False)
     = Some (example_response ''x'')"
    by (simp add: always_answers_def)
  have other: "''cat'' \<noteq> ''id''"
    by simp
  note fact = baseline_request_single_parameter
    [where params = "[(''id'', ''1''), (''cat'', ''2'')]" and param = "''id''" and original = "''1''"
       and net = "always_answers ''x''" and w = "[]"
       and target_url = "''http://example.com/item?id=1&cat=2''" and payload = "hd SQLI_PAYLOADS"
       and s = example_scanner and response = "example_response ''x''",
     OF key answered]
  note log = fact [THEN conjunct1]
  note dropped = fact [THEN conjunct2, THEN conjunct2, rule_format, OF other]
  have evaluated:
    "snd (snd (sqli_trial (always_answers ''x'') ''http://example.com/item?id=1&cat=2''
                 [(''id'', ''1''), (''cat'', ''2'')] (hd SQLI_PAYLOADS) ''id'' (example_scanner, [])))
     = [get_request ''http://example.com/item'' [(''id'', hd SQLI_PAYLOADS), (''cat'', ''2'')] 10 False,
        get_request ''http://example.com/item'' [(''id'', ''1'')] 10 True]"
    by code_simp
  from key answered log dropped evaluated show ?thesis
    by (intro conjI)
qed

text \<open>
  Claim C1 as stated fails in a whole scan of the target
  \<open>http://example.com/item?id=1&cat=2\<close>: the first request carries \<open>id\<close> and \<open>cat\<close>,
  the second one, the baseline of the first trial, carries \<open>id\<close> alone.
\<close>

theorem baseline_request_all_parameters_counterexample:
  "extract_params example_urllib ''http://example.com/item?id=1&cat=2''
     = Inr [(''id'', ''1''), (''cat'', ''2'')]
   \<and> req_params
        (snd (snd (sqli_scan example_urllib (always_answers ''x'')
                     ''http://example.com/item?id=1&cat=2'' None (example_scanner, []))) ! 0)
     = [(''id'', hd SQLI_PAYLOADS), (''cat'', ''2'')]
   \<and> snd (snd (sqli_scan example_urllib (always_answers ''x'')
                  ''http://example.com/item?id=1&cat=2'' None (example_scanner, []))) ! 1
     = get_request ''http://example.com/item'' [(''id'', ''1'')] 10 True
   \<and> dict_get
        (req_params
           (snd (snd (sqli_scan example_urllib (always_answers ''x'')
                        ''http://example.com/item?id=1&cat=2'' None (example_scanner, []))) ! 1))
        ''cat''
     = None"
  by code_simp

text \<open>
  Claim C10. In every SQLi trial whose payload request is answered, the trial sends
  two requests: the payload request with redirect-following disabled and then the
  baseline request with redirect-following enabled; the boolean-based check compares
  the body lengths of the responses to these two requests.
\<close>

theorem sqli_trial_redirect_policies:
  assumes "dict_get params param = Some original"
      and "net w (get_request (get_base_url target_url) (dict_set params param payload) (timeout s) False)
             = Some response"
  shows "\<exists>probe baseline.
           snd (snd (sqli_trial net target_url params payload param (s, w))) = w @ [probe, baseline]
         \<and> req_params probe = dict_set params param payload
         \<and> \<not> req_allow_redirects probe
         \<and> net w probe = Some response
         \<and> req_params baseline = [(param, original)]
         \<and> req_allow_redirects baseline
         \<and> (\<forall>original_response.
               net (w @ [probe]) baseline = Some original_response \<longrightarrow>
               vulnerabilities (fst (snd (sqli_trial net target_url params payload param (s, w))))
                 = vulnerabilities (check_error_patterns SQL_ERROR_PATTERNS payload param response s)
                   @ (if 50 < \<bar>int (length (resp_text response))
                               - int (length (resp_text original_response))\<bar>
                      then [sqli_boolean_finding payload param response
                              \<bar>int (length (resp_text response))
                               - int (length (resp_text original_response))\<bar>]
                      else []))"
proof -
  let ?probe = "get_request (get_base_url target_url) (dict_set params param payload) (timeout s) False"
  let ?baseline = "get_request (get_base_url target_url) [(param, original)] (timeout s) True"
  have log: "snd (snd (sqli_trial net target_url params payload param (s, w))) = w @ [?probe, ?baseline]"
    using assms by (simp add: sqli_trial_unfold Let_def split: option.splits)
  have flags: "req_params ?probe = dict_set params param payload" "\<not> req_allow_redirects ?probe"
    "req_params ?baseline = [(param, original)]" "req_allow_redirects ?baseline"
    by (simp_all add: get_request_def)
  have cmp: "vulnerabilities (fst (snd (sqli_trial net target_url params payload param (s, w))))
               = vulnerabilities (check_error_patterns SQL_ERROR_PATTERNS payload param response s)
                 @ (if 50 < \<bar>int (length (resp_text response))
                             - int (length (resp_text original_response))\<bar>
                    then [sqli_boolean_finding payload param response
                            \<bar>int (length (resp_text response))
                             - int (length (resp_text original_response))\<bar>]
                    else [])"
    if "net (w @ [?probe]) ?baseline = Some original_response" for original_response
    using assms that
    by (simp add: sqli_trial_unfold Let_def check_error_patterns_find append_vuln_def
        length_diff_of_def split: option.splits)
  show ?thesis
    using log flags assms(2) cmp by blast
qed

text \<open>A trial on \<open>?id=1\<close> against the network that tells the two policies apart.\<close>

theorem sqli_trial_redirect_policies_witness:
  "dict_get [(''id'', ''1'')] ''id'' = Some ''1''
   \<and> redirect_sensitive []
        (get_request (get_base_url ''http://example.com/item?id=1'')
           (dict_set [(''id'', ''1'')] ''id'' (hd SQLI_PAYLOADS)) (timeout example_scanner) False)
     = Some (example_response (replicate 60 CHR ''x''))
   \<and> (\<exists>probe baseline.
         snd (snd (sqli_trial redirect_sensitive ''http://example.com/item?id=1'' [(''id'', ''1'')]
                     (hd SQLI_PAYLOADS) ''id'' (example_scanner, [])))
           = [] @ [probe, baseline]
       \<and> \<not> req_allow_redirects probe
       \<and> req_allow_redirects baseline)
   \<and> vulnerabilities
        (fst (snd (sqli_trial redirect_sensitive ''http://example.com/item?id=1'' [(''id'', ''1'')]
                     (hd SQLI_PAYLOADS) ''id'' (example_scanner, []))))
     = [sqli_boolean_finding (hd SQLI_PAYLOADS) ''id'' (example_response (replicate 60 CHR ''x'')) 60]"
proof -
  have key: "dict_get [(''id'', ''1'')] ''id'' = Some ''1''"
    by (simp add: dict_get_def)
  have answered:
    "redirect_sensitive []
       (get_request (get_base_url ''http://example.com/item?id=1'')
          (dict_set [(''id'', ''1'')] ''id'' (hd SQLI_PAYLOADS)) (timeout example_scanner) False)
     = Some (example_response (replicate 60 CHR ''x''))"
    by (simp add: redirect_sensitive_def get_request_def)
  have emitted:
    "vulnerabilities
        (fst (snd (sqli_trial redirect_sensitive ''http://example.com/item?id=1'' [(''id'', ''1'')]
                     (hd SQLI_PAYLOADS) ''id'' (example_scanner, []))))
     = [sqli_boolean_finding (hd SQLI_PAYLOADS) ''id'' (example_response (replicate 60 CHR ''x'')) 60]"
    by code_simp
  have "\<exists>probe baseline.
         snd (snd (sqli_trial redirect_sensitive ''http://example.com/item?id=1'' [(''id'', ''1'')]
                     (hd SQLI_PAYLOADS) ''id'' (example_scanner, [])))
           = [] @ [probe, baseline]
       \<and> \<not> req_allow_redirects probe
       \<and> req_allow_redirects baseline"
    using sqli_trial_redirect_policies
      [where params = "[(''id'', ''1'')]" and param = "''id''" and original = "''1''"
         and net = redirect_sensitive and w = "[]"
         and target_url = "''http://example.com/item?id=1''" and payload = "hd SQLI_PAYLOADS"
         and s = example_scanner and response = "example_response (replicate 60 CHR ''x'')",
       OF key answered]
    by blast
  with key answered emitted show ?thesis
    by blast
qed

subsection \<open>The open redirect scan\<close>

lemma urlparse_malicious_netloc:
  assumes "urlparse L MALICIOUS_REDIRECT_TARGET = Inr p"
  shows "netloc p = ''malicious-example.com''"
proof -
  have s: "split_scheme ''https://malicious-example.com'' = (''https'', ''//malicious-example.com'')"
    by (simp add: split_scheme_def is_ascii_alpha_def scheme_chars_def lower_def lower_char_def)
  show ?thesis
    using assms unfolding MALICIOUS_REDIRECT_TARGET_def
    by (auto simp: urlparse_def s is_netloc_end_def Let_def split: if_splits)
qed

lemma redirect_trial_unfold:
  "redirect_trial L net target_url param (s, w) =
     (let request = get_request (redirect_test_url target_url param) [] (timeout s) True
      in case net w request of
           None \<Rightarrow> (None, (s, w @ [request]))
         | Some response \<Rightarrow>
             (case urlparse L (resp_url response) of
                Inl e \<Rightarrow> (Some e, (s, w @ [request]))
              | Inr parsed_final_url \<Rightarrow>
                  (case urlparse L MALICIOUS_REDIRECT_TARGET of
                     Inl e \<Rightarrow> (Some e, (s, w @ [request]))
                   | Inr parsed_target \<Rightarrow>
                       if netloc parsed_final_url = netloc parsed_target
                       then (None,
                             (append_vuln
                                (redirect_finding param (redirect_test_url target_url param) response) s,
                              w @ [request]))
                       else (None, (s, w @ [request])))))"
  by (simp add: redirect_trial_def requests_get_def send_def Let_def split: option.splits)

lemma redirect_trial_step:
  assumes "timeout (fst st) = t"
      and "\<forall>f \<in> set (vulnerabilities (fst st)). redirect_evidence L net target_url t f"
      and "param \<in> set REDIRECT_PARAMS"
  shows "timeout (fst (snd (redirect_trial L net target_url param st))) = t
       \<and> (\<forall>f \<in> set (vulnerabilities (fst (snd (redirect_trial L net target_url param st)))).
            redirect_evidence L net target_url t f)"
proof -
  obtain s w where st: "st = (s, w)" by (cases st)
  have t: "timeout s = t" using assms(1) st by simp
  have new: "redirect_evidence L net target_url t
               (redirect_finding param (redirect_test_url target_url param) response)"
    if "net w (get_request (redirect_test_url target_url param) [] t True) = Some response"
      and "urlparse L (resp_url response) = Inr parsed_final_url"
      and "urlparse L MALICIOUS_REDIRECT_TARGET = Inr parsed_target"
      and "netloc parsed_final_url = netloc parsed_target"
    for response parsed_final_url parsed_target
    unfolding redirect_evidence_def
    using that assms(3) urlparse_malicious_netloc [OF that(3)] by blast
  show ?thesis
    using assms(2) t new unfolding st
    by (auto simp: redirect_trial_unfold Let_def append_vuln_def split: option.splits sum.splits)
qed

lemma redirect_scan_evidence:
  "\<forall>f \<in> set (vulnerabilities (fst (snd (redirect_scan L net target_url params0 (s, w))))).
     redirect_evidence L net target_url (timeout s) f"
proof (cases "urlparse L target_url")
  case (Inl e)
  then show ?thesis by (simp add: redirect_scan_def reset_def)
next
  case (Inr parsed_base_url)
  define I :: "scan_state \<Rightarrow> bool" where
    "I = (\<lambda>st. timeout (fst st) = timeout s
            \<and> (\<forall>f \<in> set (vulnerabilities (fst st)). redirect_evidence L net target_url (timeout s) f))"
  have "I (snd (for_each (redirect_trial L net target_url) REDIRECT_PARAMS (reset s, w)))"
  proof (rule for_each_invariant [where P = I])
    show "I (reset s, w)" by (simp add: I_def reset_def)
  next
    fix param and st :: scan_state
    assume "param \<in> set REDIRECT_PARAMS" and "I st"
    then show "I (snd (redirect_trial L net target_url param st))"
      using redirect_trial_step [of st "timeout s" L net target_url param] by (simp add: I_def)
  qed
  then show ?thesis
    using Inr by (simp add: redirect_scan_def snd_scan_result Let_def I_def)
qed

text \<open>
  Claim C6. Every Finding the open redirect scan emits comes from a response whose
  final URL has a network location equal to the network location of the malicious
  target \<open>https://malicious-example.com\<close>, which is \<open>malicious-example.com\<close>; a trial
  whose response has a final URL with another network location emits no Finding.
\<close>

theorem open_redirect_netloc:
  "(\<forall>f \<in> set (vulnerabilities (fst (snd (redirect_scan L net target_url params0 (s, w))))).
      \<exists>param h response parsed_final_url parsed_target.
        param \<in> set REDIRECT_PARAMS
      \<and> net h (get_request (redirect_test_url target_url param) [] (timeout s) True) = Some response
      \<and> urlparse L (resp_url response) = Inr parsed_final_url
      \<and> urlparse L MALICIOUS_REDIRECT_TARGET = Inr parsed_target
      \<and> netloc parsed_final_url = netloc parsed_target
      \<and> netloc parsed_target = ''malicious-example.com''
      \<and> f = redirect_finding param (redirect_test_url target_url param) response)
   \<and> (\<forall>param s' w' response parsed_final_url parsed_target.
        net w' (get_request (redirect_test_url target_url param) [] (timeout s') True) = Some response
      \<and> urlparse L (resp_url response) = Inr parsed_final_url
      \<and> urlparse L MALICIOUS_REDIRECT_TARGET = Inr parsed_target
      \<and> netloc parsed_final_url \<noteq> netloc parsed_target
      \<longrightarrow> redirect_trial L net target_url param (s', w')
            = (None, (s', w' @ [get_request (redirect_test_url target_url param) [] (timeout s') True])))"
proof -
  have emitted:
    "\<forall>f \<in> set (vulnerabilities (fst (snd (redirect_scan L net target_url params0 (s, w))))).
       redirect_evidence L net target_url (timeout s) f"
    by (rule redirect_scan_evidence)
  have skipped:
    "redirect_trial L net target_url param (s', w')
       = (None, (s', w' @ [get_request (redirect_test_url target_url param) [] (timeout s') True]))"
    if "net w' (get_request (redirect_test_url target_url param) [] (timeout s') True) = Some response"
      and "urlparse L (resp_url response) = Inr parsed_final_url"
      and "urlparse L MALICIOUS_REDIRECT_TARGET = Inr parsed_target"
      and "netloc parsed_final_url \<noteq> netloc parsed_target"
    for param s' w' response parsed_final_url parsed_target
    using that by (simp add: redirect_trial_unfold Let_def)
  show ?thesis
    using emitted skipped unfolding redirect_evidence_def by blast
qed

text \<open>
  A network whose responses end at \<open>https://malicious-example.com/landing\<close>, and one
  whose responses stay at \<open>http://example.com/\<close>.
\<close>

theorem open_redirect_netloc_witness:
  "redirect_finding ''redirect'' (redirect_test_url ''http://example.com/login'' ''redirect'')
       ((example_response ''moved'')\<lparr>resp_url := ''https://malicious-example.com/landing''\<rparr>)
     \<in> set (vulnerabilities (fst (snd (redirect_scan example_urllib
          (redirects_to ''https://malicious-example.com/landing'')
          ''http://example.com/login'' None (example_scanner, [])))))
   \<and> (\<exists>param h response parsed_final_url.
         redirects_to ''https://malicious-example.com/landing'' h
           (get_request (redirect_test_url ''http://example.com/login'' param) []
              (timeout example_scanner) True) = Some response
       \<and> urlparse example_urllib (resp_url response) = Inr parsed_final_url
       \<and> netloc parsed_final_url = ''malicious-example.com''
       \<and> redirect_finding ''redirect'' (redirect_test_url ''http://example.com/login'' ''redirect'')
            ((example_response ''moved'')\<lparr>resp_url := ''https://malicious-example.com/landing''\<rparr>)
          = redirect_finding param (redirect_test_url ''http://example.com/login'' param) response)
   \<and> urlparse example_urllib (resp_url (example_response ''x''))
       = Inr \<lparr>scheme = ''http'', netloc = ''example.com'', query = []\<rparr>
   \<and> urlparse example_urllib MALICIOUS_REDIRECT_TARGET
       = Inr \<lparr>scheme = ''https'', netloc = ''malicious-example.com'', query = []\<rparr>
   \<and> redirect_trial example_urllib (always_answers ''x'') ''http://example.com/login'' ''redirect''
        (example_scanner, [])
     = (None,
        (example_scanner,
         [] @ [get_request (redirect_test_url ''http://example.com/login'' ''redirect'') []
                 (timeout example_scanner) True]))"
proof -
  let ?f = "redirect_finding ''redirect'' (redirect_test_url ''http://example.com/login'' ''redirect'')
       ((example_response ''moved'')\<lparr>resp_url := ''https://malicious-example.com/landing''\<rparr>)"
  have emitted:
    "?f \<in> set (vulnerabilities (fst (snd (redirect_scan example_urllib
          (redirects_to ''https://malicious-example.com/landing'')
          ''http://example.com/login'' None (example_scanner, [])))))"
    by code_simp
  have answered:
    "always_answers ''x'' []
       (get_request (redirect_test_url ''http://example.com/login'' ''redirect'') []
          (timeout example_scanner) True) = Some (example_response ''x'')"
    by (simp add: always_answers_def)
  have final:
    "urlparse example_urllib (resp_url (example_response ''x''))
       = Inr \<lparr>scheme = ''http'', netloc = ''example.com'', query = []\<rparr>"
    by code_simp
  have target:
    "urlparse example_urllib MALICIOUS_REDIRECT_TARGET
       = Inr \<lparr>scheme = ''https'', netloc = ''malicious-example.com'', query = []\<rparr>"
    by code_simp
  have differ:
    "netloc \<lparr>scheme = ''http'', netloc = ''example.com'', query = []\<rparr>
       \<noteq> netloc \<lparr>scheme = ''https'', netloc = ''malicious-example.com'', query = []\<rparr>"
    by simp
  note first = open_redirect_netloc
    [where L = example_urllib and net = "redirects_to ''https://malicious-example.com/landing''"
       and target_url = "''http://example.com/login''" and ?params0.0 = None
       and s = example_scanner and w = "[]", THEN conjunct1, rule_format, OF emitted]
  note second = open_redirect_netloc
    [where L = example_urllib and net = "always_answers ''x''"
       and target_url = "''http://example.com/login''" and ?params0.0 = None
       and s = example_scanner and w = "[]", THEN conjunct2, rule_format,
     OF conjI [OF answered conjI [OF final conjI [OF target differ]]]]
  from first have evidence:
    "\<exists>param h response parsed_final_url.
         redirects_to ''https://malicious-example.com/landing'' h
           (get_request (redirect_test_url ''http://example.com/login'' param) []
              (timeout example_scanner) True) = Some response
       \<and> urlparse example_urllib (resp_url response) = Inr parsed_final_url
       \<and> netloc parsed_final_url = ''malicious-example.com''
       \<and> ?f = redirect_finding param (redirect_test_url ''http://example.com/login'' param) response"
    by metis
  from emitted evidence final target second show ?thesis
    by simp
qed

end
